theory Spec2Isabelle
  imports Main "HOL-Library.Word"
begin

section \<open>Data model of the release server\<close>

text \<open>
  The release server (package \<open>main\<close> of the server command, type \<open>releaseServer\<close>)
  works on the protocol types \<open>release.Release\<close>, \<open>release.Info\<close>, \<open>release.Status\<close>
  and \<open>release.Hook\<close>. Their declarations are generated code outside the source tree;
  the records below carry the fields the server reads and writes, under the names the
  server uses. \<open>Info\<close> and \<open>Info.Status\<close> are pointers in the source; every release the
  server builds has both, with \<open>FirstDeployed\<close> and \<open>LastDeployed\<close> set, and the
  records carry them unconditionally. \<open>Chart\<close>, \<open>Config\<close>, \<open>Deleted\<close> and \<open>LastRun\<close> are
  pointers the server tests, copies or leaves nil, so they are options here.
\<close>

datatype status_code = UNKNOWN | DEPLOYED | DELETED | SUPERSEDED | FAILED

text \<open>Modelled from the spec: the eight lifecycle events a hook can be tagged with
  (the enumeration \<open>release.Hook_Event\<close> is generated code outside the source tree).\<close>

datatype hook_event =
    PRE_INSTALL | POST_INSTALL | PRE_DELETE | POST_DELETE
  | PRE_UPGRADE | POST_UPGRADE | PRE_ROLLBACK | POST_ROLLBACK

record timestamp =
  Seconds :: int
  Nanos :: int

text \<open>\<open>Version\<close> is an \<open>int32\<close>: addition and subtraction wrap.\<close>

type_synonym version = "32 word"

record hook =
  HookName :: string
  Kind :: string
  Path :: string
  HookManifest :: string
  Events :: "hook_event list"
  LastRun :: "timestamp option"

record chart =
  ChartName :: string
  ChartVersion :: string
  Engine :: string
  Templates :: "(string \<times> string) list"
  Values :: string

record status =
  Code :: status_code
  Notes :: string
  Resources :: string

record info =
  Status :: status
  FirstDeployed :: timestamp
  LastDeployed :: timestamp
  Deleted :: "timestamp option"

record release =
  Name :: string
  Info :: info
  Chart :: "chart option"
  Config :: "string option"
  Manifest :: string
  Hooks :: "hook list"
  Version :: version
  Namespace :: string

text \<open>
  Errors are values. The constructors name the error variables of the source
  (\<open>errMissingChart\<close>, \<open>errMissingRelease\<close>, \<open>errIncompatibleVersion\<close>,
  \<open>driver.ErrReleaseNotFound\<close>), the messages it formats with \<open>fmt.Errorf\<close> and
  \<open>errors.New\<close>, errors handed up from a collaborator (\<open>External\<close>), and the two
  run-time panics the handlers can reach.
\<close>

datatype error =
    errMissingChart
  | errMissingRelease
  | errIncompatibleVersion
  | ErrReleaseNotFound
  | ErrReleaseExists
  | NameTooLong string
  | NameInUse
  | NameAlreadyExists string
  | NoAvailableName
  | OffsetNotFound string
  | NoItemsAfter string
  | UnknownHook string
  | ReleaseFailed string error
  | UpdateFailed string error
  | ApiVersionsFailed error
  | InfoMissing
  | ChartMissing
  | GettingDeployed string error
  | GettingRelease string version error
  | External string
  | PanicNilDereference
  | PanicIndexOutOfRange

section \<open>The world the handlers act on\<close>

text \<open>
  Every call a handler makes on the release store, on the orchestrator client or on the
  clock is appended to a trace, so that a claim about which calls happen (or do not) is a
  claim about the trace.
\<close>

datatype call =
    StoreGet string version
  | StoreDeployed string
  | StoreCreate release
  | StoreUpdate release
  | StoreListFilterAll
  | KubeCreate string string
  | KubeWatchUntilReady string string
  | KubeUpdate string string string
  | KubeGet string string
  | KubeAPIVersions
  | TimeNow timestamp

record world =
  releases :: "release list"
  trace :: "call list"

text \<open>
  Rendered files (a Go map from path to text, here in the order the map is ranged over),
  a template engine, and what \<open>sortManifests\<close> returns beside the hooks.
\<close>

type_synonym files = "(string \<times> string) list"

type_synonym renderer = "chart \<Rightarrow> string \<Rightarrow> error + files"

datatype sort_order = InstallOrder | UninstallOrder

record manifest =
  manifest_name :: string
  manifest_content :: string

text \<open>
  The collaborators are capabilities the server holds through \<open>s.env\<close>, or library
  functions outside the source tree. What each answers is a parameter. The orchestrator
  client (\<open>kube_\<close>), the store backend's own failures, the clock and the name generator
  answer as functions of the calls made so far, so that an answer may change from one
  call to the next. \<open>is_compatible\<close> is \<open>version.IsCompatible\<close> against the server's
  version, \<open>render_values\<close> is \<open>chartutil.ToRenderValues\<close>, \<open>engine_default\<close> and
  \<open>engine_get\<close> are the engine yard, \<open>sort_manifests\<close> is \<open>sortManifests\<close>,
  \<open>regexp_compile\<close> is \<open>regexp.Compile\<close> with \<open>MatchString\<close>, and \<open>sort_releases\<close> is
  \<open>sort.Sort\<close> for a given \<open>Less\<close>.
\<close>

record env =
  kube_create :: "call list \<Rightarrow> string \<Rightarrow> string \<Rightarrow> error option"
  kube_watch :: "call list \<Rightarrow> string \<Rightarrow> string \<Rightarrow> error option"
  kube_update :: "call list \<Rightarrow> string \<Rightarrow> string \<Rightarrow> string \<Rightarrow> error option"
  kube_get :: "call list \<Rightarrow> string \<Rightarrow> string \<Rightarrow> error + string"
  kube_api_versions :: "call list \<Rightarrow> error + string list option"
  store_fault :: "call list \<Rightarrow> call \<Rightarrow> error option"
  clock :: "call list \<Rightarrow> timestamp"
  namer :: "call list \<Rightarrow> string"
  is_compatible :: "string \<Rightarrow> bool"
  render_values :: "chart \<Rightarrow> string option \<Rightarrow> string \<times> timestamp \<times> string \<Rightarrow> error + string"
  engine_default :: renderer
  engine_get :: "string \<Rightarrow> renderer option"
  sort_manifests :: "files \<Rightarrow> string list \<Rightarrow> sort_order \<Rightarrow> error + hook list \<times> manifest list"
  regexp_compile :: "string \<Rightarrow> error + (string \<Rightarrow> bool)"
  sort_releases :: "(release \<Rightarrow> release \<Rightarrow> bool) \<Rightarrow> release list \<Rightarrow> release list"

definition emit :: "call \<Rightarrow> world \<Rightarrow> world" where
  "emit c w = w\<lparr>trace := trace w @ [c]\<rparr>"

text \<open>\<open>timeconv.Now()\<close>: read the clock.\<close>

definition Now :: "env \<Rightarrow> world \<Rightarrow> timestamp \<times> world" where
  "Now e w = (let t = clock e (trace w) in (t, emit (TimeNow t) w))"

section \<open>The release store\<close>

text \<open>
  The release store (\<open>s.env.Releases\<close>, package \<open>storage\<close>) is outside the source tree.
  The spec gives the contract of each operation; the store is a list of releases, keyed
  by (name, version), and each operation is modelled from that contract. A backend may
  also fail for reasons of its own (the source tells \<open>driver.ErrReleaseNotFound\<close> from
  other errors): \<open>store_fault\<close> decides that, and a failed operation leaves the store
  as it was and returns no release.
\<close>

text \<open>Modelled from the spec: releases are keyed by (name, version).\<close>

definition has_key :: "string \<Rightarrow> version \<Rightarrow> release \<Rightarrow> bool" where
  "has_key n v r = (Name r = n \<and> Version r = v)"

text \<open>Modelled from the spec: \<open>Update\<close> overwrites in place.\<close>

fun overwrite :: "release \<Rightarrow> release list \<Rightarrow> release list" where
  "overwrite r [] = []"
| "overwrite r (x # xs) =
     (if has_key (Name r) (Version r) x then r # xs else x # overwrite r xs)"

text \<open>Modelled from the spec: \<open>Get(name, version)\<close> fails with \<open>NotFound\<close> if there is no
  exact match.\<close>

definition storeGet :: "env \<Rightarrow> string \<Rightarrow> version \<Rightarrow> world \<Rightarrow> (error + release) \<times> world" where
  "storeGet e n v w =
     (let w' = emit (StoreGet n v) w in
      case store_fault e (trace w) (StoreGet n v) of
        Some err \<Rightarrow> (Inl err, w')
      | None \<Rightarrow>
          (case find (has_key n v) (releases w) of
             None \<Rightarrow> (Inl ErrReleaseNotFound, w')
           | Some r \<Rightarrow> (Inr r, w')))"

text \<open>Modelled from the spec: \<open>Deployed(name)\<close> returns the DEPLOYED version of the name
  (the first in the list, should there be several) and fails with \<open>NotFound\<close> if there
  is none.\<close>

definition storeDeployed :: "env \<Rightarrow> string \<Rightarrow> world \<Rightarrow> (error + release) \<times> world" where
  "storeDeployed e n w =
     (let w' = emit (StoreDeployed n) w in
      case store_fault e (trace w) (StoreDeployed n) of
        Some err \<Rightarrow> (Inl err, w')
      | None \<Rightarrow>
          (case find (\<lambda>r. Name r = n \<and> Code (Status (Info r)) = DEPLOYED) (releases w) of
             None \<Rightarrow> (Inl ErrReleaseNotFound, w')
           | Some r \<Rightarrow> (Inr r, w')))"

text \<open>Modelled from the spec: \<open>Create(r)\<close> fails with \<open>AlreadyExists\<close> if the key of \<open>r\<close>
  is present.\<close>

definition storeCreate :: "env \<Rightarrow> release \<Rightarrow> world \<Rightarrow> error option \<times> world" where
  "storeCreate e r w =
     (let w' = emit (StoreCreate r) w in
      case store_fault e (trace w) (StoreCreate r) of
        Some err \<Rightarrow> (Some err, w')
      | None \<Rightarrow>
          (case find (has_key (Name r) (Version r)) (releases w) of
             Some x \<Rightarrow> (Some ErrReleaseExists, w')
           | None \<Rightarrow> (None, w'\<lparr>releases := releases w @ [r]\<rparr>)))"

text \<open>Modelled from the spec: \<open>Update(r)\<close> fails with \<open>NotFound\<close> if the key of \<open>r\<close> is
  absent, and overwrites in place otherwise.\<close>

definition storeUpdate :: "env \<Rightarrow> release \<Rightarrow> world \<Rightarrow> error option \<times> world" where
  "storeUpdate e r w =
     (let w' = emit (StoreUpdate r) w in
      case store_fault e (trace w) (StoreUpdate r) of
        Some err \<Rightarrow> (Some err, w')
      | None \<Rightarrow>
          (case find (has_key (Name r) (Version r)) (releases w) of
             None \<Rightarrow> (Some ErrReleaseNotFound, w')
           | Some x \<Rightarrow> (None, w'\<lparr>releases := overwrite r (releases w)\<rparr>)))"

text \<open>Modelled from the spec: \<open>ListFilterAll(pred)\<close> returns every release that \<open>pred\<close>
  accepts (here in the order of the list; the spec leaves the order open).\<close>

definition storeListFilterAll ::
    "env \<Rightarrow> (release \<Rightarrow> bool) \<Rightarrow> world \<Rightarrow> (error + release list) \<times> world" where
  "storeListFilterAll e p w =
     (let w' = emit StoreListFilterAll w in
      case store_fault e (trace w) StoreListFilterAll of
        Some err \<Rightarrow> (Inl err, w')
      | None \<Rightarrow> (Inr (filter p (releases w)), w'))"

section \<open>Name allocation: \<open>uniqName\<close>\<close>

definition releaseNameMaxLen :: nat where
  "releaseNameMaxLen = 14"

text \<open>
  The loop of \<open>uniqName\<close> for an empty requested name: up to \<open>maxTries\<close> candidates from
  the name generator (\<open>moniker\<close>), each cut to \<open>releaseNameMaxLen\<close>; the first one whose
  lookup answers \<open>ErrReleaseNotFound\<close> is granted. After the last try the source returns
  the error beside the string \<open>ERROR\<close>, which its caller drops.
\<close>

fun uniqName_tries :: "env \<Rightarrow> nat \<Rightarrow> world \<Rightarrow> (error + string) \<times> world" where
  "uniqName_tries e 0 w = (Inl NoAvailableName, w)"
| "uniqName_tries e (Suc k) w =
     (let name = take releaseNameMaxLen (namer e (trace w)) in
      case storeGet e name 1 w of
        (Inl err, w') \<Rightarrow>
          if err = ErrReleaseNotFound then (Inr name, w') else uniqName_tries e k w'
      | (Inr rel, w') \<Rightarrow> uniqName_tries e k w')"

text \<open>
  With a requested name, the source reads \<open>rel.Info.Status.Code\<close> in the \<open>else if\<close> of
  the lookup, that is whenever the error is not \<open>ErrReleaseNotFound\<close>: also when the
  lookup failed with another error and returned no release, where the read is a nil
  dereference.
\<close>

definition uniqName :: "env \<Rightarrow> string \<Rightarrow> bool \<Rightarrow> world \<Rightarrow> (error + string) \<times> world" where
  "uniqName e start reuse w =
     (if start \<noteq> [] then
        if length start > releaseNameMaxLen then (Inl (NameTooLong start), w)
        else
          (case storeGet e start 1 w of
             (Inl err, w') \<Rightarrow>
               if err = ErrReleaseNotFound then (Inr start, w')
               else (Inl PanicNilDereference, w')
           | (Inr rel, w') \<Rightarrow>
               (let st = Code (Status (Info rel)) in
                if reuse \<and> (st = DELETED \<or> st = FAILED) then (Inr start, w')
                else if reuse then (Inl NameInUse, w')
                else (Inl (NameAlreadyExists start), w')))
      else uniqName_tries e 5 w)"

section \<open>The orchestrator client\<close>

text \<open>
  \<open>s.env.KubeClient\<close>: each call is recorded and answered by the environment.
  \<open>getVersionSet\<close> asks the client for its API client and the discovery endpoint for the
  server groups; the two requests and \<open>unversioned.ExtractGroupVersions\<close> are one
  recorded call here, answered with an error, with no groups (\<open>None\<close>) or with the
  versions. It returns the default set beside an error.
\<close>

definition kubeCreate :: "env \<Rightarrow> string \<Rightarrow> string \<Rightarrow> world \<Rightarrow> error option \<times> world" where
  "kubeCreate e ns m w = (kube_create e (trace w) ns m, emit (KubeCreate ns m) w)"

definition kubeWatchUntilReady :: "env \<Rightarrow> string \<Rightarrow> string \<Rightarrow> world \<Rightarrow> error option \<times> world" where
  "kubeWatchUntilReady e ns m w =
     (kube_watch e (trace w) ns m, emit (KubeWatchUntilReady ns m) w)"

definition kubeUpdate ::
    "env \<Rightarrow> string \<Rightarrow> string \<Rightarrow> string \<Rightarrow> world \<Rightarrow> error option \<times> world" where
  "kubeUpdate e ns cur tgt w = (kube_update e (trace w) ns cur tgt, emit (KubeUpdate ns cur tgt) w)"

definition kubeGet :: "env \<Rightarrow> string \<Rightarrow> string \<Rightarrow> world \<Rightarrow> (error + string) \<times> world" where
  "kubeGet e ns m w = (kube_get e (trace w) ns m, emit (KubeGet ns m) w)"

definition defVersions :: "string list" where
  "defVersions = [''v1'']"

definition getVersionSet :: "env \<Rightarrow> world \<Rightarrow> (string list \<times> error option) \<times> world" where
  "getVersionSet e w =
     (let w' = emit KubeAPIVersions w in
      case kube_api_versions e (trace w) of
        Inl err \<Rightarrow> ((defVersions, Some err), w')
      | Inr None \<Rightarrow> ((defVersions, None), w')
      | Inr (Some versions) \<Rightarrow> ((versions, None), w'))"

section \<open>Hook execution: \<open>execHook\<close>\<close>

text \<open>
  Modelled from the spec: the table \<open>events\<close> from hook names to events and the hook
  names the handlers pass (\<open>preInstall\<close> and the others); both are declared in a file of
  the server outside the source tree.
\<close>

definition events :: "string \<Rightarrow> hook_event option" where
  "events = map_of
     [(''pre-install'', PRE_INSTALL), (''post-install'', POST_INSTALL),
      (''pre-delete'', PRE_DELETE), (''post-delete'', POST_DELETE),
      (''pre-upgrade'', PRE_UPGRADE), (''post-upgrade'', POST_UPGRADE),
      (''pre-rollback'', PRE_ROLLBACK), (''post-rollback'', POST_ROLLBACK)]"

text \<open>Modelled from the spec: the hook names of install, upgrade and rollback.\<close>

definition preInstall :: string where "preInstall = ''pre-install''"
definition postInstall :: string where "postInstall = ''post-install''"
definition preUpgrade :: string where "preUpgrade = ''pre-upgrade''"
definition postUpgrade :: string where "postUpgrade = ''post-upgrade''"
definition preRollback :: string where "preRollback = ''pre-rollback''"
definition postRollback :: string where "postRollback = ''post-rollback''"

text \<open>
  The loop of \<open>execHook\<close> over the hooks. A hook is a pointer in the source and
  \<open>h.LastRun = timeconv.Now()\<close> writes through it, so the loop returns the hooks as it
  leaves them: also when it stops at an error, where the hooks already run keep their
  new \<open>LastRun\<close> and the others are as they were.
\<close>

fun execHook_loop ::
    "env \<Rightarrow> hook_event \<Rightarrow> string \<Rightarrow> hook list \<Rightarrow> world \<Rightarrow> error option \<times> hook list \<times> world" where
  "execHook_loop e code ns [] w = (None, [], w)"
| "execHook_loop e code ns (h # hs) w =
     (if code \<notin> set (Events h) then
        (case execHook_loop e code ns hs w of (r, hs', w') \<Rightarrow> (r, h # hs', w'))
      else
        (case kubeCreate e ns (HookManifest h) w of
           (Some err, w1) \<Rightarrow> (Some err, h # hs, w1)
         | (None, w1) \<Rightarrow>
             (case kubeWatchUntilReady e ns (HookManifest h) w1 of
                (Some err, w2) \<Rightarrow> (Some err, h # hs, w2)
              | (None, w2) \<Rightarrow>
                  (case Now e w2 of
                     (t, w3) \<Rightarrow>
                       (case execHook_loop e code ns hs w3 of
                          (r, hs', w') \<Rightarrow> (r, h\<lparr>LastRun := Some t\<rparr> # hs', w'))))))"

definition execHook ::
    "env \<Rightarrow> hook list \<Rightarrow> string \<Rightarrow> string \<Rightarrow> string \<Rightarrow> world \<Rightarrow> error option \<times> hook list \<times> world" where
  "execHook e hs rname ns hook w =
     (case events hook of
        None \<Rightarrow> (Some (UnknownHook hook), hs, w)
      | Some code \<Rightarrow> execHook_loop e code ns hs w)"

text \<open>
  \<open>hook_ran e ns pre h' seg\<close> says what the loop does with a hook it runs to the end,
  starting from the trace \<open>pre\<close>: the create and then the wait of the hook's manifest
  answered no error, \<open>seg\<close> is the three calls made (create, wait until ready, clock),
  and \<open>h'\<close>, the hook as the loop leaves it, has \<open>LastRun\<close> set to the time the clock
  gave right after the wait.
\<close>

definition hook_ran :: "env \<Rightarrow> string \<Rightarrow> call list \<Rightarrow> hook \<Rightarrow> call list \<Rightarrow> bool" where
  "hook_ran e ns pre h' seg =
     (kube_create e pre ns (HookManifest h') = None \<and>
      kube_watch e (pre @ [KubeCreate ns (HookManifest h')]) ns (HookManifest h') = None \<and>
      LastRun h' =
        Some (clock e (pre @ [KubeCreate ns (HookManifest h'),
                              KubeWatchUntilReady ns (HookManifest h')])) \<and>
      seg = [KubeCreate ns (HookManifest h'), KubeWatchUntilReady ns (HookManifest h'),
             TimeNow (clock e (pre @ [KubeCreate ns (HookManifest h'),
                                      KubeWatchUntilReady ns (HookManifest h')]))])"

section \<open>Install\<close>

text \<open>
  The request context is reduced to what \<open>getVersion\<close> reads from it: the first value
  of its \<open>x-helm-api-client\<close> header, if it has one.
\<close>

type_synonym Context = "string option"

definition getVersion :: "Context \<Rightarrow> string" where
  "getVersion c = (case c of Some v \<Rightarrow> v | None \<Rightarrow> [])"

definition checkClientVersion :: "env \<Rightarrow> Context \<Rightarrow> bool" where
  "checkClientVersion e c = is_compatible e (getVersion c)"

record InstallReleaseRequest =
  Install_Chart :: "chart option"
  Install_Values :: "string option"
  Install_DryRun :: bool
  Install_Name :: string
  Install_DisableHooks :: bool
  Install_Namespace :: string
  Install_ReuseName :: bool

definition notesFileSuffix :: string where
  "notesFileSuffix = ''NOTES.txt''"

definition HasSuffix :: "string \<Rightarrow> string \<Rightarrow> bool" where
  "HasSuffix s suffix =
     (length suffix \<le> length s \<and> drop (length s - length suffix) s = suffix)"

definition engine :: "env \<Rightarrow> chart \<Rightarrow> renderer" where
  "engine e ch =
     (if Engine ch \<noteq> [] then
        (case engine_get e (Engine ch) of Some r \<Rightarrow> r | None \<Rightarrow> engine_default e)
      else engine_default e)"

text \<open>
  \<open>renderResources\<close>: render, take the notes out of the files (the last file ranged
  over whose path ends in \<open>NOTES.txt\<close> gives the notes, and every such file is
  deleted), ask for the API versions, sort, and join the manifests into one document.
\<close>

definition renderResources ::
    "env \<Rightarrow> chart \<Rightarrow> string \<Rightarrow> world \<Rightarrow> (error + hook list \<times> string \<times> string) \<times> world" where
  "renderResources e ch vals w =
     (case engine e ch ch vals of
        Inl err \<Rightarrow> (Inl err, w)
      | Inr fs \<Rightarrow>
          (let notes = foldl (\<lambda>n (k, v). if HasSuffix k notesFileSuffix then v else n) [] fs;
               fs' = filter (\<lambda>(k, v). \<not> HasSuffix k notesFileSuffix) fs
           in case getVersionSet e w of
                ((vs, Some err), w') \<Rightarrow> (Inl (ApiVersionsFailed err), w')
              | ((vs, None), w') \<Rightarrow>
                  (case sort_manifests e fs' vs InstallOrder of
                     Inl err \<Rightarrow> (Inl err, w')
                   | Inr (hooks, manifests) \<Rightarrow>
                       (Inr (hooks,
                             concat (map (\<lambda>m. [CHR 0x0A] @ ''---'' @ [CHR 0x0A] @ ''# Source: ''
                                              @ manifest_name m @ [CHR 0x0A] @ manifest_content m)
                                       manifests),
                             notes), w'))))"

text \<open>\<open>r.Info.Status.Code = c\<close>.\<close>

definition set_Code :: "status_code \<Rightarrow> release \<Rightarrow> release" where
  "set_Code c r = r\<lparr>Info := (Info r)\<lparr>Status := (Status (Info r))\<lparr>Code := c\<rparr>\<rparr>\<rparr>"

definition prepareRelease ::
    "env \<Rightarrow> InstallReleaseRequest \<Rightarrow> world \<Rightarrow> (error + release) \<times> world" where
  "prepareRelease e req w =
     (case Install_Chart req of
        None \<Rightarrow> (Inl errMissingChart, w)
      | Some ch \<Rightarrow>
          (case uniqName e (Install_Name req) (Install_ReuseName req) w of
             (Inl err, w1) \<Rightarrow> (Inl err, w1)
           | (Inr rname, w1) \<Rightarrow>
               (case Now e w1 of
                  (ts, w2) \<Rightarrow>
                    (case render_values e ch (Install_Values req) (rname, ts, Install_Namespace req) of
                       Inl err \<Rightarrow> (Inl err, w2)
                     | Inr valuesToRender \<Rightarrow>
                         (case renderResources e ch valuesToRender w2 of
                            (Inl err, w3) \<Rightarrow> (Inl err, w3)
                          | (Inr (hooks, manifestDoc, notesTxt), w3) \<Rightarrow>
                              (Inr \<lparr>Name = rname,
                                    Info = \<lparr>Status = \<lparr>Code = UNKNOWN, Notes = notesTxt, Resources = []\<rparr>,
                                            FirstDeployed = ts, LastDeployed = ts, Deleted = None\<rparr>,
                                    Chart = Some ch,
                                    Config = Install_Values req,
                                    Manifest = manifestDoc,
                                    Hooks = hooks,
                                    Version = 1,
                                    Namespace = Install_Namespace req\<rparr>, w3))))))"

text \<open>
  \<open>recordRelease\<close>: \<open>Update\<close> when reusing a name, \<open>Create\<close> otherwise; a failure is
  logged and not returned.
\<close>

definition recordRelease :: "env \<Rightarrow> release \<Rightarrow> bool \<Rightarrow> world \<Rightarrow> world" where
  "recordRelease e r reuse w =
     (if reuse then snd (storeUpdate e r w) else snd (storeCreate e r w))"

text \<open>
  \<open>performRelease\<close> returns the response beside the error in every branch; the
  response points to the release, so it shows the release as the handler leaves it.
\<close>

definition performRelease ::
    "env \<Rightarrow> release \<Rightarrow> InstallReleaseRequest \<Rightarrow> world \<Rightarrow> (release \<times> error option) \<times> world" where
  "performRelease e r req w =
     (if Install_DryRun req then ((r, None), w)
      else
        (case (if \<not> Install_DisableHooks req
               then execHook e (Hooks r) (Name r) (Namespace r) preInstall w
               else (None, Hooks r, w)) of
           (Some err, hs1, w1) \<Rightarrow> ((r\<lparr>Hooks := hs1\<rparr>, Some err), w1)
         | (None, hs1, w1) \<Rightarrow>
             (let r1 = r\<lparr>Hooks := hs1\<rparr> in
              case kubeCreate e (Namespace r1) (Manifest r1) w1 of
                (Some err, w2) \<Rightarrow>
                  (let r2 = set_Code FAILED r1 in
                   ((r2, Some (ReleaseFailed (Name r2) err)),
                    recordRelease e r2 (Install_ReuseName req) w2))
              | (None, w2) \<Rightarrow>
                  (case (if \<not> Install_DisableHooks req
                         then execHook e (Hooks r1) (Name r1) (Namespace r1) postInstall w2
                         else (None, Hooks r1, w2)) of
                     (Some err, hs2, w3) \<Rightarrow>
                       (let r2 = set_Code FAILED (r1\<lparr>Hooks := hs2\<rparr>) in
                        ((r2, Some err), recordRelease e r2 (Install_ReuseName req) w3))
                   | (None, hs2, w3) \<Rightarrow>
                       (let r2 = set_Code DEPLOYED (r1\<lparr>Hooks := hs2\<rparr>) in
                        ((r2, None), recordRelease e r2 (Install_ReuseName req) w3))))))"

definition InstallRelease ::
    "env \<Rightarrow> Context \<Rightarrow> InstallReleaseRequest \<Rightarrow> world \<Rightarrow> (release option \<times> error option) \<times> world" where
  "InstallRelease e c req w =
     (if \<not> checkClientVersion e c then ((None, Some errIncompatibleVersion), w)
      else
        (case prepareRelease e req w of
           (Inl err, w1) \<Rightarrow> ((None, Some err), w1)
         | (Inr rel, w1) \<Rightarrow>
             (case performRelease e rel req w1 of
                ((r, err), w2) \<Rightarrow> ((Some r, err), w2))))"

section \<open>Upgrade and rollback\<close>

record UpdateReleaseRequest =
  Update_Name :: string
  Update_Chart :: "chart option"
  Update_Values :: "string option"
  Update_DryRun :: bool
  Update_DisableHooks :: bool

record RollbackReleaseRequest =
  Rollback_Name :: string
  Rollback_DryRun :: bool
  Rollback_DisableHooks :: bool
  Rollback_Version :: version

definition prepareUpdate ::
    "env \<Rightarrow> UpdateReleaseRequest \<Rightarrow> world \<Rightarrow> (error + release \<times> release) \<times> world" where
  "prepareUpdate e req w =
     (if Update_Name req = [] then (Inl errMissingRelease, w)
      else
        (case Update_Chart req of
           None \<Rightarrow> (Inl errMissingChart, w)
         | Some ch \<Rightarrow>
             (case storeDeployed e (Update_Name req) w of
                (Inl err, w1) \<Rightarrow> (Inl err, w1)
              | (Inr currentRelease, w1) \<Rightarrow>
                  (case Now e w1 of
                     (ts, w2) \<Rightarrow>
                       (case render_values e ch (Update_Values req)
                               (Update_Name req, ts, Namespace currentRelease) of
                          Inl err \<Rightarrow> (Inl err, w2)
                        | Inr valuesToRender \<Rightarrow>
                            (case renderResources e ch valuesToRender w2 of
                               (Inl err, w3) \<Rightarrow> (Inl err, w3)
                             | (Inr (hooks, manifestDoc, notesTxt), w3) \<Rightarrow>
                                 (Inr (currentRelease,
                                    \<lparr>Name = Update_Name req,
                                     Info = \<lparr>Status = \<lparr>Code = UNKNOWN, Notes = notesTxt,
                                                       Resources = []\<rparr>,
                                             FirstDeployed = FirstDeployed (Info currentRelease),
                                             LastDeployed = ts, Deleted = None\<rparr>,
                                     Chart = Some ch,
                                     Config = Update_Values req,
                                     Manifest = manifestDoc,
                                     Hooks = hooks,
                                     Version = Version currentRelease + 1,
                                     Namespace = Namespace currentRelease\<rparr>), w3)))))))"

definition performKubeUpdate :: "env \<Rightarrow> release \<Rightarrow> release \<Rightarrow> world \<Rightarrow> error option \<times> world" where
  "performKubeUpdate e currentRelease targetRelease w =
     kubeUpdate e (Namespace targetRelease) (Manifest currentRelease) (Manifest targetRelease) w"

text \<open>
  \<open>performUpdate\<close> returns a response (nil after a failed orchestrator update or store
  update) and an error. It also writes through the pointer \<open>updatedRelease\<close> (the
  hooks' \<open>LastRun\<close>, the status), which the caller then hands to \<open>Create\<close>: the third
  component is the updated release as \<open>performUpdate\<close> leaves it.
\<close>

definition performUpdate ::
    "env \<Rightarrow> release \<Rightarrow> release \<Rightarrow> UpdateReleaseRequest \<Rightarrow> world
      \<Rightarrow> (release option \<times> error option \<times> release) \<times> world" where
  "performUpdate e originalRelease updatedRelease req w =
     (if Update_DryRun req then ((Some updatedRelease, None, updatedRelease), w)
      else
        (case (if \<not> Update_DisableHooks req
               then execHook e (Hooks updatedRelease) (Name updatedRelease)
                      (Namespace updatedRelease) preUpgrade w
               else (None, Hooks updatedRelease, w)) of
           (Some err, hs1, w1) \<Rightarrow>
             ((Some (updatedRelease\<lparr>Hooks := hs1\<rparr>), Some err, updatedRelease\<lparr>Hooks := hs1\<rparr>), w1)
         | (None, hs1, w1) \<Rightarrow>
             (let u1 = updatedRelease\<lparr>Hooks := hs1\<rparr> in
              case performKubeUpdate e originalRelease u1 w1 of
                (Some err, w2) \<Rightarrow> ((None, Some err, u1), w2)
              | (None, w2) \<Rightarrow>
                  (case (if \<not> Update_DisableHooks req
                         then execHook e (Hooks u1) (Name u1) (Namespace u1) postUpgrade w2
                         else (None, Hooks u1, w2)) of
                     (Some err, hs2, w3) \<Rightarrow>
                       ((Some (u1\<lparr>Hooks := hs2\<rparr>), Some err, u1\<lparr>Hooks := hs2\<rparr>), w3)
                   | (None, hs2, w3) \<Rightarrow>
                       (let u2 = u1\<lparr>Hooks := hs2\<rparr> in
                        case storeUpdate e (set_Code SUPERSEDED originalRelease) w3 of
                          (Some err, w4) \<Rightarrow>
                            ((None, Some (UpdateFailed (Name originalRelease) err), u2), w4)
                        | (None, w4) \<Rightarrow>
                            (let u3 = set_Code DEPLOYED u2 in ((Some u3, None, u3), w4)))))))"

definition UpdateRelease ::
    "env \<Rightarrow> Context \<Rightarrow> UpdateReleaseRequest \<Rightarrow> world \<Rightarrow> (error + release option) \<times> world" where
  "UpdateRelease e c req w =
     (if \<not> checkClientVersion e c then (Inl errIncompatibleVersion, w)
      else
        (case prepareUpdate e req w of
           (Inl err, w1) \<Rightarrow> (Inl err, w1)
         | (Inr (currentRelease, updatedRelease), w1) \<Rightarrow>
             (case performUpdate e currentRelease updatedRelease req w1 of
                ((res, Some err, updatedRelease'), w2) \<Rightarrow> (Inl err, w2)
              | ((res, None, updatedRelease'), w2) \<Rightarrow>
                  (if \<not> Update_DryRun req then
                     (case storeCreate e updatedRelease' w2 of
                        (Some err, w3) \<Rightarrow> (Inl err, w3)
                      | (None, w3) \<Rightarrow> (Inr res, w3))
                   else (Inr res, w2)))))"

definition prepareRollback ::
    "env \<Rightarrow> RollbackReleaseRequest \<Rightarrow> world \<Rightarrow> (error + release \<times> release) \<times> world" where
  "prepareRollback e req w =
     (if Rollback_Name req = [] then (Inl errMissingRelease, w)
      else
        (case storeDeployed e (Rollback_Name req) w of
           (Inl err, w1) \<Rightarrow> (Inl err, w1)
         | (Inr currentRelease, w1) \<Rightarrow>
             (case storeGet e (Rollback_Name req) (Version currentRelease - 1) w1 of
                (Inl err, w2) \<Rightarrow> (Inl err, w2)
              | (Inr previousRelease, w2) \<Rightarrow>
                  (case Now e w2 of
                     (ts, w3) \<Rightarrow>
                       (Inr (currentRelease,
                          \<lparr>Name = Rollback_Name req,
                           Info = \<lparr>Status = \<lparr>Code = UNKNOWN,
                                             Notes = Notes (Status (Info previousRelease)),
                                             Resources = []\<rparr>,
                                   FirstDeployed = FirstDeployed (Info currentRelease),
                                   LastDeployed = ts, Deleted = None\<rparr>,
                           Chart = Chart previousRelease,
                           Config = Config previousRelease,
                           Manifest = Manifest previousRelease,
                           Hooks = Hooks previousRelease,
                           Version = Version currentRelease + 1,
                           Namespace = Namespace currentRelease\<rparr>), w3)))))"

definition performRollback ::
    "env \<Rightarrow> release \<Rightarrow> release \<Rightarrow> RollbackReleaseRequest \<Rightarrow> world
      \<Rightarrow> (release option \<times> error option \<times> release) \<times> world" where
  "performRollback e currentRelease targetRelease req w =
     (if Rollback_DryRun req then ((Some targetRelease, None, targetRelease), w)
      else
        (case (if \<not> Rollback_DisableHooks req
               then execHook e (Hooks targetRelease) (Name targetRelease)
                      (Namespace targetRelease) preRollback w
               else (None, Hooks targetRelease, w)) of
           (Some err, hs1, w1) \<Rightarrow>
             ((Some (targetRelease\<lparr>Hooks := hs1\<rparr>), Some err, targetRelease\<lparr>Hooks := hs1\<rparr>), w1)
         | (None, hs1, w1) \<Rightarrow>
             (let t1 = targetRelease\<lparr>Hooks := hs1\<rparr> in
              case performKubeUpdate e currentRelease t1 w1 of
                (Some err, w2) \<Rightarrow> ((None, Some err, t1), w2)
              | (None, w2) \<Rightarrow>
                  (case (if \<not> Rollback_DisableHooks req
                         then execHook e (Hooks t1) (Name t1) (Namespace t1) postRollback w2
                         else (None, Hooks t1, w2)) of
                     (Some err, hs2, w3) \<Rightarrow>
                       ((Some (t1\<lparr>Hooks := hs2\<rparr>), Some err, t1\<lparr>Hooks := hs2\<rparr>), w3)
                   | (None, hs2, w3) \<Rightarrow>
                       (let t2 = t1\<lparr>Hooks := hs2\<rparr> in
                        case storeUpdate e (set_Code SUPERSEDED currentRelease) w3 of
                          (Some err, w4) \<Rightarrow>
                            ((None, Some (UpdateFailed (Name currentRelease) err), t2), w4)
                        | (None, w4) \<Rightarrow>
                            (let t3 = set_Code DEPLOYED t2 in ((Some t3, None, t3), w4)))))))"

definition RollbackRelease ::
    "env \<Rightarrow> Context \<Rightarrow> RollbackReleaseRequest \<Rightarrow> world \<Rightarrow> (error + release option) \<times> world" where
  "RollbackRelease e c req w =
     (if \<not> checkClientVersion e c then (Inl errIncompatibleVersion, w)
      else
        (case prepareRollback e req w of
           (Inl err, w1) \<Rightarrow> (Inl err, w1)
         | (Inr (currentRelease, targetRelease), w1) \<Rightarrow>
             (case performRollback e currentRelease targetRelease req w1 of
                ((res, Some err, targetRelease'), w2) \<Rightarrow> (Inl err, w2)
              | ((res, None, targetRelease'), w2) \<Rightarrow>
                  (if \<not> Rollback_DryRun req then
                     (case storeCreate e targetRelease' w2 of
                        (Some err, w3) \<Rightarrow> (Inl err, w3)
                      | (None, w3) \<Rightarrow> (Inr res, w3))
                   else (Inr res, w2)))))"

section \<open>Status and listing\<close>

record GetReleaseStatusRequest =
  Status_Name :: string
  Status_Version :: version

record GetReleaseStatusResponse =
  Response_Info :: info
  Response_Namespace :: string

text \<open>
  \<open>GetReleaseStatus\<close>. The comparison \<open>req.Version <= 0\<close> is signed. The test
  \<open>rel.Info == nil\<close> cannot fire on a release of the model, which always has its
  \<open>Info\<close>; the test \<open>rel.Chart == nil\<close> can. The orchestrator's \<open>Get\<close> is called before
  the status is looked at. The response shares \<open>rel.Info\<close>, so the resources assigned
  to \<open>rel.Info.Status.Resources\<close> show in it.
\<close>

definition GetReleaseStatus ::
    "env \<Rightarrow> Context \<Rightarrow> GetReleaseStatusRequest \<Rightarrow> world
      \<Rightarrow> (error + GetReleaseStatusResponse) \<times> world" where
  "GetReleaseStatus e c req w =
     (if \<not> checkClientVersion e c then (Inl errIncompatibleVersion, w)
      else if Status_Name req = [] then (Inl errMissingRelease, w)
      else
        (case (if sint (Status_Version req) \<le> 0 then
                 (case storeDeployed e (Status_Name req) w of
                    (Inl err, w1) \<Rightarrow> (Inl (GettingDeployed (Status_Name req) err), w1)
                  | (Inr rel, w1) \<Rightarrow> (Inr rel, w1))
               else
                 (case storeGet e (Status_Name req) (Status_Version req) w of
                    (Inl err, w1) \<Rightarrow>
                      (Inl (GettingRelease (Status_Name req) (Status_Version req) err), w1)
                  | (Inr rel, w1) \<Rightarrow> (Inr rel, w1))) of
           (Inl err, w1) \<Rightarrow> (Inl err, w1)
         | (Inr rel, w1) \<Rightarrow>
             (case Chart rel of
                None \<Rightarrow> (Inl ChartMissing, w1)
              | Some ch \<Rightarrow>
                  (let sc = Code (Status (Info rel));
                       statusResp = \<lparr>Response_Info = Info rel, Response_Namespace = Namespace rel\<rparr>
                   in case kubeGet e (Namespace rel) (Manifest rel) w1 of
                        (resp, w2) \<Rightarrow>
                          if sc = DELETED \<or> sc = FAILED then (Inr statusResp, w2)
                          else
                            (case resp of
                               Inl err \<Rightarrow> (Inl err, w2)
                             | Inr resources \<Rightarrow>
                                 (Inr (statusResp\<lparr>Response_Info :=
                                         (Info rel)\<lparr>Status :=
                                           (Status (Info rel))\<lparr>Resources := resources\<rparr>\<rparr>\<rparr>),
                                  w2))))))"

datatype ListSort_SortBy = ListSort_UNKNOWN | ListSort_NAME | ListSort_LAST_RELEASED

datatype ListSort_SortOrder = ListSort_ASC | ListSort_DESC

text \<open>\<open>Limit\<close> is an \<open>int64\<close>; it is only compared and used as an index, so it is an
  integer here, negative values included.\<close>

record ListReleasesRequest =
  List_Limit :: int
  List_Offset :: string
  List_SortBy :: ListSort_SortBy
  List_SortOrder :: ListSort_SortOrder
  List_StatusCodes :: "status_code list"
  List_Filter :: string

record ListReleasesResponse =
  Next :: string
  Count :: int
  Total :: int
  Releases :: "release list"

definition ListDefaultLimit :: int where
  "ListDefaultLimit = 512"

text \<open>The \<open>Less\<close> of \<open>byName\<close> (Go compares strings byte by byte) and of \<open>byDate\<close>.\<close>

definition byName_Less :: "release \<Rightarrow> release \<Rightarrow> bool" where
  "byName_Less r s = lexordp (\<lambda>x y. (of_char x :: nat) < of_char y) (Name r) (Name s)"

definition byDate_Less :: "release \<Rightarrow> release \<Rightarrow> bool" where
  "byDate_Less p q = (Seconds (LastDeployed (Info p)) < Seconds (LastDeployed (Info q)))"

definition filterReleases :: "env \<Rightarrow> string \<Rightarrow> release list \<Rightarrow> error + release list" where
  "filterReleases e flt rels =
     (case regexp_compile e flt of
        Inl err \<Rightarrow> Inl err
      | Inr matches \<Rightarrow> Inr (filter (\<lambda>r. matches (Name r)) rels))"

text \<open>The loop that looks for the offset: the index of the last release of that name,
  or nothing (the source's \<open>-1\<close>).\<close>

definition offset_index :: "string \<Rightarrow> release list \<Rightarrow> nat option" where
  "offset_index off rels =
     foldl (\<lambda>i (ii, cur). if Name cur = off then Some ii else i) None (enumerate 0 rels)"

text \<open>
  \<open>ListReleases\<close>, in two parts. The first goes up to the offset: it returns the total
  and the filtered, sorted, offset-adjusted list. The second applies the limit and
  builds the response; \<open>rels[req.Limit]\<close> with a negative limit is an index out of
  range. \<open>ListReleases\<close> returns the response it hands to \<open>stream.Send\<close>; what \<open>Send\<close>
  itself answers is not modelled.
\<close>

definition ListReleases_upto_offset ::
    "env \<Rightarrow> Context \<Rightarrow> ListReleasesRequest \<Rightarrow> world \<Rightarrow> (error + int \<times> release list) \<times> world" where
  "ListReleases_upto_offset e c req w =
     (if \<not> checkClientVersion e c then (Inl errIncompatibleVersion, w)
      else
        (let codes = (if List_StatusCodes req = [] then [DEPLOYED] else List_StatusCodes req) in
         case storeListFilterAll e (\<lambda>r. Code (Status (Info r)) \<in> set codes) w of
           (Inl err, w1) \<Rightarrow> (Inl err, w1)
         | (Inr rels, w1) \<Rightarrow>
             (case (if List_Filter req \<noteq> [] then filterReleases e (List_Filter req) rels
                    else Inr rels) of
                Inl err \<Rightarrow> (Inl err, w1)
              | Inr rels1 \<Rightarrow>
                  (let tot = int (length rels1);
                       rels2 = (case List_SortBy req of
                                  ListSort_NAME \<Rightarrow> sort_releases e byName_Less rels1
                                | ListSort_LAST_RELEASED \<Rightarrow> sort_releases e byDate_Less rels1
                                | ListSort_UNKNOWN \<Rightarrow> rels1);
                       rels3 = (if List_SortOrder req = ListSort_DESC then rev rels2 else rels2)
                   in if List_Offset req \<noteq> [] then
                        (case offset_index (List_Offset req) rels3 of
                           None \<Rightarrow> (Inl (OffsetNotFound (List_Offset req)), w1)
                         | Some i \<Rightarrow>
                             if length rels3 < i then (Inl (NoItemsAfter (List_Offset req)), w1)
                             else (Inr (tot, drop i rels3), w1))
                      else (Inr (tot, rels3), w1)))))"

definition ListReleases_page :: "int \<Rightarrow> release list \<Rightarrow> int \<Rightarrow> error + ListReleasesResponse" where
  "ListReleases_page tot rels lim =
     (let limit = (if lim = 0 then ListDefaultLimit else lim);
          l = int (length rels)
      in if l > limit then
           (if limit < 0 then Inl PanicIndexOutOfRange
            else Inr \<lparr>Next = Name (rels ! nat limit),
                      Count = int (length (take (nat limit) rels)),
                      Total = tot,
                      Releases = take (nat limit) rels\<rparr>)
         else Inr \<lparr>Next = [], Count = l, Total = tot, Releases = rels\<rparr>)"

definition ListReleases ::
    "env \<Rightarrow> Context \<Rightarrow> ListReleasesRequest \<Rightarrow> world \<Rightarrow> (error + ListReleasesResponse) \<times> world" where
  "ListReleases e c req w =
     (case ListReleases_upto_offset e c req w of
        (Inl err, w1) \<Rightarrow> (Inl err, w1)
      | (Inr (tot, rels), w1) \<Rightarrow> (ListReleases_page tot rels (List_Limit req), w1))"

section \<open>Kinds of calls\<close>

text \<open>
  \<open>calls_within P w w'\<close> says that from \<open>w\<close> to \<open>w'\<close> the store's content did not change
  and only calls that satisfy \<open>P\<close> were made. The calls that only look are a store
  \<open>Get\<close>, the request for the API versions and a reading of the clock.
\<close>

fun lookup_only :: "call \<Rightarrow> bool" where
  "lookup_only (StoreGet n v) = True"
| "lookup_only KubeAPIVersions = True"
| "lookup_only (TimeNow t) = True"
| "lookup_only c = False"

definition calls_within :: "(call \<Rightarrow> bool) \<Rightarrow> world \<Rightarrow> world \<Rightarrow> bool" where
  "calls_within P w w' =
     (releases w' = releases w \<and> (\<exists>cs. trace w' = trace w @ cs \<and> list_all P cs))"

text \<open>The calls that write to the store.\<close>

fun store_write :: "call \<Rightarrow> bool" where
  "store_write (StoreCreate r) = True"
| "store_write (StoreUpdate r) = True"
| "store_write c = False"

section \<open>Concrete environments and worlds\<close>

text \<open>
  An orchestrator, store backend and clock that never fail, and an empty store: the
  inputs the closed theorems below evaluate the handlers on.
\<close>

definition calm_env :: env where
  "calm_env =
     \<lparr>kube_create = (\<lambda>t ns m. None), kube_watch = (\<lambda>t ns m. None),
      kube_update = (\<lambda>t ns c m. None), kube_get = (\<lambda>t ns m. Inr ''ok''),
      kube_api_versions = (\<lambda>t. Inr None), store_fault = (\<lambda>t c. None),
      clock = (\<lambda>t. \<lparr>Seconds = int (length t), Nanos = 0\<rparr>),
      namer = (\<lambda>t. ''happy-panda''),
      is_compatible = (\<lambda>v. True),
      render_values = (\<lambda>ch vals opts. Inr ''values''),
      engine_default = (\<lambda>ch vals. Inr (Templates ch)),
      engine_get = (\<lambda>n. None),
      sort_manifests = (\<lambda>fs vs ord. Inr ([], map (\<lambda>(k, v). \<lparr>manifest_name = k, manifest_content = v\<rparr>) fs)),
      regexp_compile = (\<lambda>f. Inr (\<lambda>n. True)),
      sort_releases = (\<lambda>less rs. rs)\<rparr>"

text \<open>A store backend that is down: every operation fails with an error of its own.\<close>

definition store_down_env :: env where
  "store_down_env = calm_env\<lparr>store_fault := (\<lambda>t c. Some (External ''backend unavailable''))\<rparr>"

definition empty_world :: world where
  "empty_world = \<lparr>releases = [], trace = []\<rparr>"

text \<open>
  Four hooks: two for pre-install only, one for post-install only and one for both; and an
  orchestrator on which the resource of the hook \<open>migrate\<close> never becomes ready.
\<close>

definition hook_of :: "string \<Rightarrow> hook_event list \<Rightarrow> hook" where
  "hook_of n evs =
     \<lparr>HookName = n, Kind = ''Job'', Path = n, HookManifest = n, Events = evs, LastRun = None\<rparr>"

definition four_hooks :: "hook list" where
  "four_hooks =
     [hook_of ''check'' [PRE_INSTALL], hook_of ''notify'' [POST_INSTALL],
      hook_of ''migrate'' [PRE_INSTALL, POST_INSTALL], hook_of ''warm'' [PRE_INSTALL]]"

definition migrate_stuck_env :: env where
  "migrate_stuck_env =
     calm_env\<lparr>kube_watch :=
       (\<lambda>t ns m. if m = ''migrate'' then Some (External ''timed out'') else None)\<rparr>"

text \<open>What the pre-install phase over \<open>four_hooks\<close> leaves on that orchestrator.\<close>

definition stuck_hooks :: "hook list" where
  "stuck_hooks =
     [(hook_of ''check'' [PRE_INSTALL])\<lparr>LastRun := Some \<lparr>Seconds = 2, Nanos = 0\<rparr>\<rparr>,
      hook_of ''notify'' [POST_INSTALL],
      hook_of ''migrate'' [PRE_INSTALL, POST_INSTALL], hook_of ''warm'' [PRE_INSTALL]]"

definition stuck_world :: world where
  "stuck_world =
     \<lparr>releases = [],
      trace = [KubeCreate ''default'' ''check'', KubeWatchUntilReady ''default'' ''check'',
               TimeNow \<lparr>Seconds = 2, Nanos = 0\<rparr>,
               KubeCreate ''default'' ''migrate'', KubeWatchUntilReady ''default'' ''migrate'']\<rparr>"

text \<open>A chart with one template, a dry-run install of it under the name \<open>web\<close>, and the
  same install for real.\<close>

definition web_chart :: chart where
  "web_chart =
     \<lparr>ChartName = ''web'', ChartVersion = ''0.1.0'', Engine = [],
      Templates = [(''web/templates/cm.yaml'', ''kind: ConfigMap'')], Values = []\<rparr>"

definition dry_request :: InstallReleaseRequest where
  "dry_request =
     \<lparr>Install_Chart = Some web_chart, Install_Values = None, Install_DryRun = True,
      Install_Name = ''web'', Install_DisableHooks = False, Install_Namespace = ''default'',
      Install_ReuseName = False\<rparr>"

definition live_request :: InstallReleaseRequest where
  "live_request = dry_request\<lparr>Install_DryRun := False\<rparr>"

text \<open>A prepared release \<open>web\<close> with one pre-install hook, not yet applied.\<close>

definition web_release :: release where
  "web_release =
     \<lparr>Name = ''web'',
      Info = \<lparr>Status = \<lparr>Code = UNKNOWN, Notes = [], Resources = []\<rparr>,
              FirstDeployed = \<lparr>Seconds = 1, Nanos = 0\<rparr>,
              LastDeployed = \<lparr>Seconds = 1, Nanos = 0\<rparr>, Deleted = None\<rparr>,
      Chart = Some web_chart, Config = None, Manifest = ''kind: ConfigMap'',
      Hooks = [hook_of ''check'' [PRE_INSTALL]], Version = 1, Namespace = ''default''\<rparr>"

text \<open>An orchestrator that refuses to create the hook \<open>check\<close>, and one that refuses to
  create the manifest of \<open>web_release\<close>.\<close>

definition hook_refused_env :: env where
  "hook_refused_env =
     calm_env\<lparr>kube_create :=
       (\<lambda>t ns m. if m = ''check'' then Some (External ''forbidden'') else None)\<rparr>"

definition manifest_refused_env :: env where
  "manifest_refused_env =
     calm_env\<lparr>kube_create :=
       (\<lambda>t ns m. if m = ''kind: ConfigMap'' then Some (External ''forbidden'') else None)\<rparr>"

text \<open>
  A store that holds the release \<open>web\<close>, version 1, deployed; an upgrade of it with the
  same chart; and an orchestrator that refuses every update.
\<close>

definition web_v1 :: release where
  "web_v1 = set_Code DEPLOYED web_release"

definition deployed_world :: world where
  "deployed_world = \<lparr>releases = [web_v1], trace = []\<rparr>"

definition upgrade_request :: UpdateReleaseRequest where
  "upgrade_request =
     \<lparr>Update_Name = ''web'', Update_Chart = Some web_chart, Update_Values = None,
      Update_DryRun = False, Update_DisableHooks = False\<rparr>"

definition update_refused_env :: env where
  "update_refused_env = calm_env\<lparr>kube_update := (\<lambda>t ns cur tgt. Some (External ''conflict''))\<rparr>"

text \<open>The release the upgrade builds on \<open>calm_env\<close>, as prepared and as recorded.\<close>

definition web_v2_prepared :: release where
  "web_v2_prepared =
     \<lparr>Name = ''web'',
      Info = \<lparr>Status = \<lparr>Code = UNKNOWN, Notes = [], Resources = []\<rparr>,
              FirstDeployed = \<lparr>Seconds = 1, Nanos = 0\<rparr>,
              LastDeployed = \<lparr>Seconds = 1, Nanos = 0\<rparr>, Deleted = None\<rparr>,
      Chart = Some web_chart, Config = None,
      Manifest = [CHR 0x0A] @ ''---'' @ [CHR 0x0A] @ ''# Source: web/templates/cm.yaml''
                 @ [CHR 0x0A] @ ''kind: ConfigMap'',
      Hooks = [], Version = 2, Namespace = ''default''\<rparr>"

definition web_v2 :: release where
  "web_v2 = set_Code DEPLOYED web_v2_prepared"

text \<open>The worlds the upgrade of \<open>web\<close> goes through: after preparing, after a successful
  upgrade on \<open>calm_env\<close>, and after the update refused on \<open>update_refused_env\<close>.\<close>

definition upgrade_prepared_world :: world where
  "upgrade_prepared_world =
     \<lparr>releases = [web_v1],
      trace = [StoreDeployed ''web'', TimeNow \<lparr>Seconds = 1, Nanos = 0\<rparr>, KubeAPIVersions]\<rparr>"

definition upgraded_world :: world where
  "upgraded_world =
     \<lparr>releases = [set_Code SUPERSEDED web_v1, web_v2],
      trace = [StoreDeployed ''web'', TimeNow \<lparr>Seconds = 1, Nanos = 0\<rparr>, KubeAPIVersions,
               KubeUpdate ''default'' (Manifest web_v1) (Manifest web_v2),
               StoreUpdate (set_Code SUPERSEDED web_v1), StoreCreate web_v2]\<rparr>"

definition update_refused_world :: world where
  "update_refused_world =
     \<lparr>releases = [web_v1],
      trace = [StoreDeployed ''web'', TimeNow \<lparr>Seconds = 1, Nanos = 0\<rparr>, KubeAPIVersions,
               KubeUpdate ''default'' (Manifest web_v1) (Manifest web_v2)]\<rparr>"

text \<open>A rollback of \<open>web\<close>, and a store with its history: version 1 superseded, version 2
  deployed.\<close>

definition rollback_request :: RollbackReleaseRequest where
  "rollback_request =
     \<lparr>Rollback_Name = ''web'', Rollback_DryRun = False, Rollback_DisableHooks = False,
      Rollback_Version = 0\<rparr>"

definition history_world :: world where
  "history_world = \<lparr>releases = [set_Code SUPERSEDED web_v1, web_v2], trace = []\<rparr>"

text \<open>A store whose only release, \<open>web\<close> version 1, is marked DELETED; a status request for
  that version; and an orchestrator whose \<open>Get\<close> fails.\<close>

definition web_deleted :: release where
  "web_deleted = set_Code DELETED web_release"

definition deleted_world :: world where
  "deleted_world = \<lparr>releases = [web_deleted], trace = []\<rparr>"

definition status_request :: GetReleaseStatusRequest where
  "status_request = \<lparr>Status_Name = ''web'', Status_Version = 1\<rparr>"

definition get_fails_env :: env where
  "get_fails_env = calm_env\<lparr>kube_get := (\<lambda>t ns m. Inl (External ''not found''))\<rparr>"

text \<open>A list request with a negative limit, and one with limit 1.\<close>

definition list_request :: ListReleasesRequest where
  "list_request =
     \<lparr>List_Limit = - 1, List_Offset = [], List_SortBy = ListSort_UNKNOWN,
      List_SortOrder = ListSort_ASC, List_StatusCodes = [], List_Filter = []\<rparr>"

definition list_all_request :: ListReleasesRequest where
  "list_all_request =
     list_request\<lparr>List_Limit := 1, List_StatusCodes := [SUPERSEDED, DEPLOYED]\<rparr>"

text \<open>Two hooks, the second for both install events; and the same hooks after a
  pre-install phase on \<open>migrate_stuck_env\<close> has run the second.\<close>

definition two_hooks :: "hook list" where
  "two_hooks =
     [hook_of ''migrate'' [POST_INSTALL], hook_of ''warm'' [PRE_INSTALL, POST_INSTALL]]"

definition two_hooks_stamped :: "hook list" where
  "two_hooks_stamped =
     [hook_of ''migrate'' [POST_INSTALL],
      (hook_of ''warm'' [PRE_INSTALL, POST_INSTALL])\<lparr>LastRun := Some \<lparr>Seconds = 2, Nanos = 0\<rparr>\<rparr>]"

definition warm_ran_world :: world where
  "warm_ran_world =
     \<lparr>releases = [],
      trace = [KubeCreate ''default'' ''warm'', KubeWatchUntilReady ''default'' ''warm'',
               TimeNow \<lparr>Seconds = 2, Nanos = 0\<rparr>]\<rparr>"

section \<open>Theorems\<close>

subsection \<open>Name allocation\<close>

text \<open>
  C4. For an install with a non-empty requested name, when the store lookup of
  (name, 1) is answered from the store's content: a name longer than 14 fails with
  TooLong (the check comes first, so a name of length exactly 14 goes on to the lookup);
  if (name, 1) is absent the name is granted; if it is present, reuse is true and its
  status is DELETED or FAILED, the name is granted; otherwise, if reuse is true the
  allocation fails with InUse, and else with AlreadyExists.
\<close>

theorem uniqName_requested:
  assumes "start \<noteq> []" and "store_fault e (trace w) (StoreGet start 1) = None"
  shows "(length start > 14 \<longrightarrow> fst (uniqName e start reuse w) = Inl (NameTooLong start))
    \<and> (length start \<le> 14 \<and> find (has_key start 1) (releases w) = None
          \<longrightarrow> fst (uniqName e start reuse w) = Inr start)
    \<and> (\<forall>rel. length start \<le> 14 \<and> find (has_key start 1) (releases w) = Some rel \<longrightarrow>
          fst (uniqName e start reuse w) =
            (if reuse \<and> (Code (Status (Info rel)) = DELETED \<or> Code (Status (Info rel)) = FAILED)
             then Inr start
             else if reuse then Inl NameInUse
             else Inl (NameAlreadyExists start)))"
  using assms by (auto simp: uniqName_def storeGet_def releaseNameMaxLen_def Let_def)

theorem uniqName_requested_witness:
  "fst (uniqName calm_env ''fourteen-chars'' False empty_world) = Inr ''fourteen-chars''
   \<and> fst (uniqName calm_env ''fifteen-chars-x'' False empty_world)
       = Inl (NameTooLong ''fifteen-chars-x'')"
  using uniqName_requested [of "''fourteen-chars''" calm_env empty_world False]
    uniqName_requested [of "''fifteen-chars-x''" calm_env empty_world False]
  by (simp add: calm_env_def empty_world_def)

text \<open>
  C9. The claim asks that \<open>uniqName\<close> inspect the looked-up release only when the
  lookup returned no error. The source inspects it whenever the error is not
  \<open>ErrReleaseNotFound\<close>: with a store backend that answers the lookup of (name, 1) with
  another error and no release, \<open>uniqName\<close> dereferences the missing release.
\<close>

theorem uniqName_backend_error_dereferences:
  "fst (uniqName store_down_env ''web'' False empty_world) = Inl PanicNilDereference"
  by (simp add: uniqName_def storeGet_def releaseNameMaxLen_def store_down_env_def
      calm_env_def empty_world_def)

text \<open>In general: a lookup that fails with any error but \<open>ErrReleaseNotFound\<close> ends in
  the dereference, whatever the name (not empty, not too long) and the store.\<close>

lemma uniqName_lookup_error_dereferences:
  assumes "start \<noteq> []" and "length start \<le> 14"
    and "store_fault e (trace w) (StoreGet start 1) = Some err" and "err \<noteq> ErrReleaseNotFound"
  shows "fst (uniqName e start reuse w) = Inl PanicNilDereference"
  using assms by (simp add: uniqName_def storeGet_def releaseNameMaxLen_def Let_def)

subsection \<open>Hook execution\<close>

text \<open>
  What a run of the loop of \<open>execHook\<close> has done when it returns. The hooks split into
  those the loop went through (\<open>done\<close>) and the rest. Each hook gone through that is
  tagged with the event was created and waited for, both without error, and stamped
  with the time read next (\<open>hook_ran\<close>): one segment of the trace per such hook, in
  order; the hooks not tagged are as they were. A run that returns an error stopped at
  the first hook of the rest, which is tagged with the event: the error is the answer of
  its create, or of its wait after a create without error, and no call follows. A run
  that returns no error went through every hook. The store is not touched.
\<close>

lemma execHook_loop_run:
  "execHook_loop e code ns hs w = (r, hs', w') \<Longrightarrow>
   \<exists>done done' rest segs tail.
      hs = done @ rest \<and> hs' = done' @ rest \<and>
      list_all2 (\<lambda>h h'. if code \<in> set (Events h) then (\<exists>t. h' = h\<lparr>LastRun := Some t\<rparr>) else h' = h)
        done done' \<and>
      length segs = length (filter (\<lambda>h'. code \<in> set (Events h')) done') \<and>
      (\<forall>i < length segs.
         hook_ran e ns (trace w @ concat (take i segs))
           (filter (\<lambda>h'. code \<in> set (Events h')) done' ! i) (segs ! i)) \<and>
      releases w' = releases w \<and>
      trace w' = trace w @ concat segs @ tail \<and>
      (case r of
         None \<Rightarrow> rest = [] \<and> tail = []
       | Some err \<Rightarrow>
           (\<exists>h post. rest = h # post \<and> code \<in> set (Events h) \<and>
              ((kube_create e (trace w @ concat segs) ns (HookManifest h) = Some err \<and>
                tail = [KubeCreate ns (HookManifest h)]) \<or>
               (kube_create e (trace w @ concat segs) ns (HookManifest h) = None \<and>
                kube_watch e (trace w @ concat segs @ [KubeCreate ns (HookManifest h)]) ns
                  (HookManifest h) = Some err \<and>
                tail = [KubeCreate ns (HookManifest h), KubeWatchUntilReady ns (HookManifest h)]))))"
proof (induction hs arbitrary: w r hs' w')
  case Nil
  then show ?case by simp
next
  case (Cons h hs)
  show ?case
  proof (cases "code \<in> set (Events h)")
    case False
    obtain r0 hs0 w0 where run: "execHook_loop e code ns hs w = (r0, hs0, w0)"
      by (cases "execHook_loop e code ns hs w") auto
    with Cons.prems False have eqs: "r = r0" "hs' = h # hs0" "w' = w0" by auto
    from Cons.IH [OF run] show ?thesis
      apply (elim exE conjE)
      subgoal for dn dn' rest segs tail
        apply (rule exI [of _ "h # dn"], rule exI [of _ "h # dn'"], rule exI [of _ rest],
            rule exI [of _ segs], rule exI [of _ tail])
        using False eqs by simp
      done
  next
    case True
    note m = True
    show ?thesis
    proof (cases "kube_create e (trace w) ns (HookManifest h)")
      case (Some err)
      with Cons.prems m have eqs: "r = Some err" "hs' = h # hs"
          "trace w' = trace w @ [KubeCreate ns (HookManifest h)]" "releases w' = releases w"
        by (auto simp: kubeCreate_def emit_def)
      show ?thesis
        apply (rule exI [of _ "[]"], rule exI [of _ "[]"], rule exI [of _ "h # hs"],
            rule exI [of _ "[]"], rule exI [of _ "[KubeCreate ns (HookManifest h)]"])
        using eqs m Some by simp
    next
      case None
      note c = None
      let ?t1 = "trace w @ [KubeCreate ns (HookManifest h)]"
      show ?thesis
      proof (cases "kube_watch e ?t1 ns (HookManifest h)")
        case (Some err)
        with Cons.prems m c have eqs: "r = Some err" "hs' = h # hs"
          "trace w' = trace w @ [KubeCreate ns (HookManifest h), KubeWatchUntilReady ns (HookManifest h)]"
          "releases w' = releases w"
          by (auto simp: kubeCreate_def kubeWatchUntilReady_def emit_def)
        show ?thesis
          apply (rule exI [of _ "[]"], rule exI [of _ "[]"], rule exI [of _ "h # hs"],
            rule exI [of _ "[]"],
            rule exI [of _ "[KubeCreate ns (HookManifest h), KubeWatchUntilReady ns (HookManifest h)]"])
          using eqs m Some c by simp
      next
        case None
        note wt = None
        define t where "t = clock e (?t1 @ [KubeWatchUntilReady ns (HookManifest h)])"
        define w3 where
          "w3 = w\<lparr>trace := ?t1 @ [KubeWatchUntilReady ns (HookManifest h), TimeNow t]\<rparr>"
        obtain r0 hs0 w0 where run: "execHook_loop e code ns hs w3 = (r0, hs0, w0)"
          by (cases "execHook_loop e code ns hs w3") auto
        with Cons.prems m c None
        have eqs: "r = r0" "hs' = h\<lparr>LastRun := Some t\<rparr> # hs0" "w' = w0"
          by (auto simp: kubeCreate_def kubeWatchUntilReady_def emit_def Now_def Let_def
              t_def w3_def)
        let ?seg =
          "[KubeCreate ns (HookManifest h), KubeWatchUntilReady ns (HookManifest h), TimeNow t]"
        have tw3: "trace w3 = trace w @ ?seg" "releases w3 = releases w"
          by (simp_all add: w3_def)
        have ran: "hook_ran e ns (trace w) (h\<lparr>LastRun := Some t\<rparr>) ?seg"
          using c wt by (simp add: hook_ran_def t_def)
        from Cons.IH [OF run] show ?thesis
          apply (elim exE conjE)
          subgoal for dn dn' rest segs tail
            apply (rule exI [of _ "h # dn"], rule exI [of _ "h\<lparr>LastRun := Some t\<rparr> # dn'"],
              rule exI [of _ rest], rule exI [of _ "?seg # segs"], rule exI [of _ tail])
            using m eqs tw3 ran
            by (auto simp: less_Suc_eq_0_disj split: option.splits)
          done
      qed
    qed
  qed
qed

text \<open>
  The converse: a result that fits this description is the result of the loop. So the
  description leaves no freedom: the error returned, the hooks returned and the calls
  made are those of the loop and no others.
\<close>

lemma execHook_loop_run_exact:
  assumes "hs = dn @ rest" and "hs' = dn' @ rest"
    and "list_all2 (\<lambda>h h'. if code \<in> set (Events h) then (\<exists>t. h' = h\<lparr>LastRun := Some t\<rparr>) else h' = h)
        dn dn'"
    and "length segs = length (filter (\<lambda>h'. code \<in> set (Events h')) dn')"
    and "\<forall>i < length segs.
         hook_ran e ns (trace w @ concat (take i segs))
           (filter (\<lambda>h'. code \<in> set (Events h')) dn' ! i) (segs ! i)"
    and "releases w' = releases w"
    and "trace w' = trace w @ concat segs @ tail"
    and "case r of
         None \<Rightarrow> rest = [] \<and> tail = []
       | Some err \<Rightarrow>
           (\<exists>h post. rest = h # post \<and> code \<in> set (Events h) \<and>
              ((kube_create e (trace w @ concat segs) ns (HookManifest h) = Some err \<and>
                tail = [KubeCreate ns (HookManifest h)]) \<or>
               (kube_create e (trace w @ concat segs) ns (HookManifest h) = None \<and>
                kube_watch e (trace w @ concat segs @ [KubeCreate ns (HookManifest h)]) ns
                  (HookManifest h) = Some err \<and>
                tail = [KubeCreate ns (HookManifest h), KubeWatchUntilReady ns (HookManifest h)])))"
  shows "execHook_loop e code ns hs w = (r, hs', w')"
  using assms
proof (induction dn arbitrary: w dn' segs hs hs')
  case Nil
  then have e: "dn' = []" "segs = []" "hs = rest" "hs' = rest" by simp_all
  show ?case
  proof (cases r)
    case None
    with Nil e have "rest = []" "trace w' = trace w" by simp_all
    with Nil(6) e None show ?thesis by simp
  next
    case (Some err)
    with Nil(8) e obtain h post where r: "rest = h # post" "code \<in> set (Events h)"
      and d: "(kube_create e (trace w) ns (HookManifest h) = Some err \<and>
                tail = [KubeCreate ns (HookManifest h)]) \<or>
               (kube_create e (trace w) ns (HookManifest h) = None \<and>
                kube_watch e (trace w @ [KubeCreate ns (HookManifest h)]) ns
                  (HookManifest h) = Some err \<and>
                tail = [KubeCreate ns (HookManifest h), KubeWatchUntilReady ns (HookManifest h)])"
      by auto
    from Nil(7) e have t: "trace w' = trace w @ tail" by simp
    from d show ?thesis
    proof
      assume a: "kube_create e (trace w) ns (HookManifest h) = Some err \<and>
                tail = [KubeCreate ns (HookManifest h)]"
      with t Nil(6) have "w' = emit (KubeCreate ns (HookManifest h)) w"
        by (simp add: emit_def)
      with a r e Some show ?thesis by (simp add: kubeCreate_def)
    next
      assume a: "kube_create e (trace w) ns (HookManifest h) = None \<and>
                kube_watch e (trace w @ [KubeCreate ns (HookManifest h)]) ns
                  (HookManifest h) = Some err \<and>
                tail = [KubeCreate ns (HookManifest h), KubeWatchUntilReady ns (HookManifest h)]"
      with t Nil(6) have "w' = emit (KubeWatchUntilReady ns (HookManifest h))
          (emit (KubeCreate ns (HookManifest h)) w)"
        by (simp add: emit_def)
      with a r e Some show ?thesis
        by (simp add: kubeCreate_def kubeWatchUntilReady_def emit_def)
    qed
  qed
next
  case (Cons d ds)
  from Cons.prems(3) obtain d' ds' where dn': "dn' = d' # ds'"
    and hd: "if code \<in> set (Events d) then (\<exists>t. d' = d\<lparr>LastRun := Some t\<rparr>) else d' = d"
    and tl: "list_all2 (\<lambda>h h'. if code \<in> set (Events h) then (\<exists>t. h' = h\<lparr>LastRun := Some t\<rparr>) else h' = h)
        ds ds'"
    by (auto simp: list_all2_Cons1)
  show ?case
  proof (cases "code \<in> set (Events d)")
    case False
    with hd have dd: "d' = d" by simp
    have "execHook_loop e code ns (ds @ rest) w = (r, ds' @ rest, w')"
      apply (rule Cons.IH [OF refl refl tl _ _ Cons.prems(6) Cons.prems(7) Cons.prems(8)])
      using Cons.prems(4,5) dn' dd False by simp_all
    with Cons.prems(1,2) dn' dd False show ?thesis by simp
  next
    case True
    with hd obtain t where dd: "d' = d\<lparr>LastRun := Some t\<rparr>" by auto
    from Cons.prems(4) dn' dd True obtain s segs0 where sg: "segs = s # segs0"
      and len: "length segs0 = length (filter (\<lambda>h'. code \<in> set (Events h')) ds')"
      by (cases segs) auto
    from Cons.prems(5) sg dn' dd True have r0: "hook_ran e ns (trace w) d' s"
      by (auto dest: spec [of _ 0])
    let ?m = "HookManifest d"
    from r0 dd have c: "kube_create e (trace w) ns ?m = None"
      and wt: "kube_watch e (trace w @ [KubeCreate ns ?m]) ns ?m = None"
      and tt: "t = clock e (trace w @ [KubeCreate ns ?m, KubeWatchUntilReady ns ?m])"
      and s: "s = [KubeCreate ns ?m, KubeWatchUntilReady ns ?m, TimeNow t]"
      by (simp_all add: hook_ran_def)
    define w3 where "w3 = w\<lparr>trace := trace w @ s\<rparr>"
    have rest_ran: "\<forall>i < length segs0.
         hook_ran e ns (trace w3 @ concat (take i segs0))
           (filter (\<lambda>h'. code \<in> set (Events h')) ds' ! i) (segs0 ! i)"
    proof (intro allI impI)
      fix i assume "i < length segs0"
      with Cons.prems(5) sg have "hook_ran e ns (trace w @ concat (take (Suc i) segs))
           (filter (\<lambda>h'. code \<in> set (Events h')) dn' ! Suc i) (segs ! Suc i)"
        by auto
      with sg dn' dd True show "hook_ran e ns (trace w3 @ concat (take i segs0))
           (filter (\<lambda>h'. code \<in> set (Events h')) ds' ! i) (segs0 ! i)"
        by (simp add: w3_def)
    qed
    have ih: "execHook_loop e code ns (ds @ rest) w3 = (r, ds' @ rest, w')"
      apply (rule Cons.IH [OF refl refl tl len rest_ran])
      using Cons.prems(6,7,8) sg by (auto simp: w3_def split: option.splits)
    have step: "kubeCreate e ns ?m w = (None, emit (KubeCreate ns ?m) w)"
      "kubeWatchUntilReady e ns ?m (emit (KubeCreate ns ?m) w) =
         (None, emit (KubeWatchUntilReady ns ?m) (emit (KubeCreate ns ?m) w))"
      "Now e (emit (KubeWatchUntilReady ns ?m) (emit (KubeCreate ns ?m) w)) = (t, w3)"
      using c wt tt s by (simp_all add: kubeCreate_def kubeWatchUntilReady_def Now_def
          emit_def Let_def w3_def)
    from Cons.prems(1,2) dn' dd True ih step show ?thesis by simp
  qed
qed

text \<open>
  C8, as stated, fails in its last part: a hook not yet executed is skipped with
  \<open>LastRun\<close> as it was, which need not be unset. On \<open>migrate_stuck_env\<close> the pre-install
  phase runs the hook \<open>warm\<close> and stamps it; the post-install phase then fails at the
  hook \<open>migrate\<close>, makes no call for \<open>warm\<close>, and returns \<open>warm\<close> with its \<open>LastRun\<close>
  set.
\<close>

theorem execHook_skipped_hook_keeps_LastRun:
  "execHook migrate_stuck_env two_hooks ''web'' ''default'' preInstall empty_world =
     (None, two_hooks_stamped, warm_ran_world)
   \<and> execHook migrate_stuck_env two_hooks_stamped ''web'' ''default'' postInstall warm_ran_world =
     (Some (External ''timed out''), two_hooks_stamped,
      warm_ran_world\<lparr>trace := trace warm_ran_world @
        [KubeCreate ''default'' ''migrate'', KubeWatchUntilReady ''default'' ''migrate'']\<rparr>)
   \<and> POST_INSTALL \<in> set (Events (two_hooks_stamped ! 1))
   \<and> LastRun (two_hooks_stamped ! 1) = Some \<lparr>Seconds = 2, Nanos = 0\<rparr>"
  by (simp add: execHook_def events_def preInstall_def postInstall_def two_hooks_def
      two_hooks_stamped_def warm_ran_world_def hook_of_def migrate_stuck_env_def calm_env_def
      empty_world_def kubeCreate_def kubeWatchUntilReady_def Now_def emit_def Let_def)

text \<open>
  C8, amended. A hook-execution phase over a list of hooks, for a hook name the table
  knows, returns \<open>(r, hs', w')\<close> exactly when the following holds. The hooks submitted
  are exactly those whose events contain the phase's event, in list order and one
  after the other: the calls of the phase are one segment (create, wait until ready,
  read the clock) per such hook among those gone through (\<open>done\<close>), in order, each
  create and wait having answered no error, followed by the calls of the hook the phase
  stopped at, if any. Each hook that became ready has \<open>LastRun\<close> set to the time read
  right after its wait; a hook that is not for the event is returned as it was. On the
  first error that a create or a wait answers, the phase aborts and returns that
  error: it stopped at the first hook of \<open>rest\<close>, nothing is called after the failed
  call, and that hook and all later ones are returned as they were, with \<open>LastRun\<close> left
  as it was (unset only if it was unset before). The phase returns no error only when
  every hook was gone through, so only when no create and no wait answered an error.
\<close>

theorem execHook_phase:
  assumes "events hook = Some code"
  shows "execHook e hs rname ns hook w = (r, hs', w') \<longleftrightarrow>
   (\<exists>done done' rest segs tail.
       hs = done @ rest \<and> hs' = done' @ rest \<and>
       list_all2 (\<lambda>h h'. if code \<in> set (Events h) then (\<exists>t. h' = h\<lparr>LastRun := Some t\<rparr>) else h' = h)
         done done' \<and>
       length segs = length (filter (\<lambda>h'. code \<in> set (Events h')) done') \<and>
       (\<forall>i < length segs.
          hook_ran e ns (trace w @ concat (take i segs))
            (filter (\<lambda>h'. code \<in> set (Events h')) done' ! i) (segs ! i)) \<and>
       releases w' = releases w \<and>
       trace w' = trace w @ concat segs @ tail \<and>
       (case r of
          None \<Rightarrow> rest = [] \<and> tail = []
        | Some err \<Rightarrow>
            (\<exists>h post. rest = h # post \<and> code \<in> set (Events h) \<and>
               ((kube_create e (trace w @ concat segs) ns (HookManifest h) = Some err \<and>
                 tail = [KubeCreate ns (HookManifest h)]) \<or>
                (kube_create e (trace w @ concat segs) ns (HookManifest h) = None \<and>
                 kube_watch e (trace w @ concat segs @ [KubeCreate ns (HookManifest h)]) ns
                   (HookManifest h) = Some err \<and>
                 tail = [KubeCreate ns (HookManifest h), KubeWatchUntilReady ns (HookManifest h)])))))"
proof
  assume "execHook e hs rname ns hook w = (r, hs', w')"
  with assms have "execHook_loop e code ns hs w = (r, hs', w')"
    by (simp add: execHook_def)
  then show "\<exists>done done' rest segs tail.
      hs = done @ rest \<and> hs' = done' @ rest \<and>
      list_all2 (\<lambda>h h'. if code \<in> set (Events h) then (\<exists>t. h' = h\<lparr>LastRun := Some t\<rparr>) else h' = h)
        done done' \<and>
      length segs = length (filter (\<lambda>h'. code \<in> set (Events h')) done') \<and>
      (\<forall>i < length segs.
         hook_ran e ns (trace w @ concat (take i segs))
           (filter (\<lambda>h'. code \<in> set (Events h')) done' ! i) (segs ! i)) \<and>
      releases w' = releases w \<and>
      trace w' = trace w @ concat segs @ tail \<and>
      (case r of
         None \<Rightarrow> rest = [] \<and> tail = []
       | Some err \<Rightarrow>
           (\<exists>h post. rest = h # post \<and> code \<in> set (Events h) \<and>
              ((kube_create e (trace w @ concat segs) ns (HookManifest h) = Some err \<and>
                tail = [KubeCreate ns (HookManifest h)]) \<or>
               (kube_create e (trace w @ concat segs) ns (HookManifest h) = None \<and>
                kube_watch e (trace w @ concat segs @ [KubeCreate ns (HookManifest h)]) ns
                  (HookManifest h) = Some err \<and>
                tail = [KubeCreate ns (HookManifest h), KubeWatchUntilReady ns (HookManifest h)]))))"
    by (rule execHook_loop_run)
next
  assume "\<exists>done done' rest segs tail.
      hs = done @ rest \<and> hs' = done' @ rest \<and>
      list_all2 (\<lambda>h h'. if code \<in> set (Events h) then (\<exists>t. h' = h\<lparr>LastRun := Some t\<rparr>) else h' = h)
        done done' \<and>
      length segs = length (filter (\<lambda>h'. code \<in> set (Events h')) done') \<and>
      (\<forall>i < length segs.
         hook_ran e ns (trace w @ concat (take i segs))
           (filter (\<lambda>h'. code \<in> set (Events h')) done' ! i) (segs ! i)) \<and>
      releases w' = releases w \<and>
      trace w' = trace w @ concat segs @ tail \<and>
      (case r of
         None \<Rightarrow> rest = [] \<and> tail = []
       | Some err \<Rightarrow>
           (\<exists>h post. rest = h # post \<and> code \<in> set (Events h) \<and>
              ((kube_create e (trace w @ concat segs) ns (HookManifest h) = Some err \<and>
                tail = [KubeCreate ns (HookManifest h)]) \<or>
               (kube_create e (trace w @ concat segs) ns (HookManifest h) = None \<and>
                kube_watch e (trace w @ concat segs @ [KubeCreate ns (HookManifest h)]) ns
                  (HookManifest h) = Some err \<and>
                tail = [KubeCreate ns (HookManifest h), KubeWatchUntilReady ns (HookManifest h)]))))"
  then have "execHook_loop e code ns hs w = (r, hs', w')"
    by (elim exE conjE) (rule execHook_loop_run_exact)
  with assms show "execHook e hs rname ns hook w = (r, hs', w')"
    by (simp add: execHook_def)
qed

theorem execHook_phase_witness:
  "events preInstall = Some PRE_INSTALL \<and>
   execHook migrate_stuck_env four_hooks ''web'' ''default'' preInstall empty_world =
     (Some (External ''timed out''), stuck_hooks, stuck_world) \<and>
   (\<exists>done done' rest segs tail.
      four_hooks = done @ rest \<and> stuck_hooks = done' @ rest \<and>
      list_all2 (\<lambda>h h'. if PRE_INSTALL \<in> set (Events h) then (\<exists>t. h' = h\<lparr>LastRun := Some t\<rparr>) else h' = h)
        done done' \<and>
      length segs = length (filter (\<lambda>h'. PRE_INSTALL \<in> set (Events h')) done') \<and>
      (\<forall>i < length segs.
         hook_ran migrate_stuck_env ''default'' (trace empty_world @ concat (take i segs))
           (filter (\<lambda>h'. PRE_INSTALL \<in> set (Events h')) done' ! i) (segs ! i)) \<and>
      releases stuck_world = releases empty_world \<and>
      trace stuck_world = trace empty_world @ concat segs @ tail \<and>
      (case (Some (External ''timed out'')) of
         None \<Rightarrow> rest = [] \<and> tail = []
       | Some err \<Rightarrow>
           (\<exists>h post. rest = h # post \<and> PRE_INSTALL \<in> set (Events h) \<and>
              ((kube_create migrate_stuck_env (trace empty_world @ concat segs) ''default'' (HookManifest h) = Some err \<and>
                tail = [KubeCreate ''default'' (HookManifest h)]) \<or>
               (kube_create migrate_stuck_env (trace empty_world @ concat segs) ''default'' (HookManifest h) = None \<and>
                kube_watch migrate_stuck_env (trace empty_world @ concat segs @ [KubeCreate ''default'' (HookManifest h)]) ''default''
                  (HookManifest h) = Some err \<and>
                tail = [KubeCreate ''default'' (HookManifest h), KubeWatchUntilReady ''default'' (HookManifest h)])))))"
proof -
  have a: "events preInstall = Some PRE_INSTALL"
    by (simp add: events_def preInstall_def)
  have b: "execHook migrate_stuck_env four_hooks ''web'' ''default'' preInstall empty_world =
     (Some (External ''timed out''), stuck_hooks, stuck_world)"
    by (simp add: execHook_def events_def preInstall_def four_hooks_def hook_of_def
        migrate_stuck_env_def calm_env_def empty_world_def kubeCreate_def
        kubeWatchUntilReady_def Now_def emit_def Let_def stuck_hooks_def stuck_world_def)
  from iffD1 [OF execHook_phase [OF a] b] a b show ?thesis by blast
qed

subsection \<open>Install\<close>

lemma calls_within_refl: "calls_within P w w"
  by (simp add: calls_within_def)

lemma calls_within_trans:
  "calls_within P w w1 \<Longrightarrow> calls_within P w1 w2 \<Longrightarrow> calls_within P w w2"
  by (auto simp: calls_within_def)

lemma calls_within_emit: "P c \<Longrightarrow> calls_within P w (emit c w)"
  by (simp add: calls_within_def emit_def)

lemma calls_within_mono:
  "calls_within P w w' \<Longrightarrow> (\<And>c. P c \<Longrightarrow> Q c) \<Longrightarrow> calls_within Q w w'"
  by (auto simp: calls_within_def list_all_iff)

lemma storeGet_only_looks: "storeGet e n v w = (x, w') \<Longrightarrow> calls_within lookup_only w w'"
  by (auto simp: storeGet_def Let_def calls_within_emit split: option.splits)

lemma Now_only_looks: "Now e w = (t, w') \<Longrightarrow> calls_within lookup_only w w'"
  by (auto simp: Now_def Let_def calls_within_emit)

lemma getVersionSet_only_looks: "getVersionSet e w = (x, w') \<Longrightarrow> calls_within lookup_only w w'"
  by (auto simp: getVersionSet_def Let_def calls_within_emit split: sum.splits option.splits)

lemma uniqName_tries_only_looks: "uniqName_tries e k w = (x, w') \<Longrightarrow> calls_within lookup_only w w'"
proof (induction k arbitrary: w)
  case 0
  then show ?case by (simp add: calls_within_refl)
next
  case (Suc k)
  obtain y w1 where g: "storeGet e (take releaseNameMaxLen (namer e (trace w))) 1 w = (y, w1)"
    by (cases "storeGet e (take releaseNameMaxLen (namer e (trace w))) 1 w") auto
  have l: "calls_within lookup_only w w1" using g by (rule storeGet_only_looks)
  show ?case
  proof (cases "y = Inl ErrReleaseNotFound")
    case True
    with Suc.prems g have "w' = w1" by (simp add: Let_def)
    with l show ?thesis by simp
  next
    case False
    with Suc.prems g have "uniqName_tries e k w1 = (x, w')"
      by (auto simp: Let_def split: sum.splits if_splits)
    from Suc.IH [OF this] l show ?thesis by (blast intro: calls_within_trans)
  qed
qed

lemma uniqName_only_looks: "uniqName e start reuse w = (x, w') \<Longrightarrow> calls_within lookup_only w w'"
  by (auto simp: uniqName_def Let_def calls_within_refl
      split: if_splits prod.splits sum.splits
      dest: storeGet_only_looks uniqName_tries_only_looks)

lemma renderResources_only_looks: "renderResources e ch vals w = (x, w') \<Longrightarrow> calls_within lookup_only w w'"
  by (auto simp: renderResources_def Let_def calls_within_refl
      split: sum.splits prod.splits option.splits dest: getVersionSet_only_looks)

lemma prepareRelease_only_looks: "prepareRelease e req w = (x, w') \<Longrightarrow> calls_within lookup_only w w'"
  unfolding prepareRelease_def
  by (auto simp: calls_within_refl split: option.splits prod.splits sum.splits
      dest!: uniqName_only_looks Now_only_looks renderResources_only_looks
      intro: calls_within_trans)

lemma lookup_only_excludes:
  "list_all lookup_only cs \<Longrightarrow>
   StoreCreate r \<notin> set cs \<and> StoreUpdate r \<notin> set cs \<and>
   KubeCreate ns m \<notin> set cs \<and> KubeWatchUntilReady ns m \<notin> set cs"
  by (auto simp: list_all_iff)

text \<open>
  C5. An install request with dry-run set changes nothing in the store and calls
  neither \<open>Create\<close> nor \<open>Update\<close> on it, and submits nothing to the orchestrator: no hook
  (create and wait) and no manifest create. The only calls made are those of the
  preparation, which look: the lookup of the name in the store, the request for the
  API versions and a reading of the clock. When the client version is accepted and
  the preparation constructs a release, that release is returned with no error.
\<close>

theorem InstallRelease_dry_run:
  assumes "Install_DryRun req"
  shows "releases (snd (InstallRelease e c req w)) = releases w \<and>
    (\<exists>cs. trace (snd (InstallRelease e c req w)) = trace w @ cs \<and> list_all lookup_only cs \<and>
       (\<forall>r ns m. StoreCreate r \<notin> set cs \<and> StoreUpdate r \<notin> set cs \<and>
          KubeCreate ns m \<notin> set cs \<and> KubeWatchUntilReady ns m \<notin> set cs)) \<and>
    (\<forall>rel w1. checkClientVersion e c \<and> prepareRelease e req w = (Inr rel, w1) \<longrightarrow>
       InstallRelease e c req w = ((Some rel, None), w1))"
proof -
  have "calls_within lookup_only w (snd (InstallRelease e c req w))"
    using assms
    by (auto simp: InstallRelease_def performRelease_def calls_within_refl
        split: prod.splits sum.splits dest: prepareRelease_only_looks)
  then obtain cs where
    a: "releases (snd (InstallRelease e c req w)) = releases w"
    and b: "trace (snd (InstallRelease e c req w)) = trace w @ cs" "list_all lookup_only cs"
    by (auto simp: calls_within_def)
  have c: "\<forall>rel w1. checkClientVersion e c \<and> prepareRelease e req w = (Inr rel, w1) \<longrightarrow>
       InstallRelease e c req w = ((Some rel, None), w1)"
    using assms by (simp add: InstallRelease_def performRelease_def)
  from a b c lookup_only_excludes [OF b(2)] show ?thesis by blast
qed

theorem InstallRelease_dry_run_witness:
  "Install_DryRun dry_request \<and>
   releases (snd (InstallRelease calm_env None dry_request empty_world)) = [] \<and>
   fst (InstallRelease calm_env None dry_request empty_world) =
     (Some \<lparr>Name = ''web'',
            Info = \<lparr>Status = \<lparr>Code = UNKNOWN, Notes = [], Resources = []\<rparr>,
                    FirstDeployed = \<lparr>Seconds = 1, Nanos = 0\<rparr>,
                    LastDeployed = \<lparr>Seconds = 1, Nanos = 0\<rparr>, Deleted = None\<rparr>,
            Chart = Some web_chart, Config = None,
            Manifest = [CHR 0x0A] @ ''---'' @ [CHR 0x0A] @ ''# Source: web/templates/cm.yaml''
                       @ [CHR 0x0A] @ ''kind: ConfigMap'',
            Hooks = [], Version = 1, Namespace = ''default''\<rparr>, None)"
proof -
  have d: "Install_DryRun dry_request" by (simp add: dry_request_def)
  have v: "checkClientVersion calm_env None"
    by (simp add: checkClientVersion_def calm_env_def)
  have p: "prepareRelease calm_env dry_request empty_world =
    (Inr \<lparr>Name = ''web'',
            Info = \<lparr>Status = \<lparr>Code = UNKNOWN, Notes = [], Resources = []\<rparr>,
                    FirstDeployed = \<lparr>Seconds = 1, Nanos = 0\<rparr>,
                    LastDeployed = \<lparr>Seconds = 1, Nanos = 0\<rparr>, Deleted = None\<rparr>,
            Chart = Some web_chart, Config = None,
            Manifest = [CHR 0x0A] @ ''---'' @ [CHR 0x0A] @ ''# Source: web/templates/cm.yaml''
                       @ [CHR 0x0A] @ ''kind: ConfigMap'',
            Hooks = [], Version = 1, Namespace = ''default''\<rparr>,
     \<lparr>releases = [], trace = [StoreGet ''web'' 1, TimeNow \<lparr>Seconds = 1, Nanos = 0\<rparr>,
        KubeAPIVersions]\<rparr>)"
    by (simp add: prepareRelease_def dry_request_def uniqName_def storeGet_def
        releaseNameMaxLen_def calm_env_def empty_world_def emit_def Now_def Let_def
        renderResources_def engine_def web_chart_def getVersionSet_def HasSuffix_def
        notesFileSuffix_def)
  from InstallRelease_dry_run [OF d, of calm_env None empty_world] d v p
  show ?thesis by (simp add: empty_world_def)
qed

text \<open>
  C1. The claim asks that a non-dry-run install whose pre-install hook phase fails set
  the status to FAILED and persist the release. \<open>performRelease\<close> does so when the
  create of the manifest or the post-install phase fails, and returns early when the
  pre-install phase fails: on an orchestrator that refuses the pre-install hook of
  \<open>web_release\<close>, the error is returned, the release keeps the status UNKNOWN, and the
  store is neither called nor changed.
\<close>

theorem performRelease_pre_install_failure_unrecorded:
  "performRelease hook_refused_env web_release live_request empty_world =
     ((web_release, Some (External ''forbidden'')),
      \<lparr>releases = [], trace = [KubeCreate ''default'' ''check'']\<rparr>)
   \<and> Code (Status (Info web_release)) = UNKNOWN"
  by (simp add: performRelease_def live_request_def dry_request_def web_release_def
      execHook_def events_def preInstall_def hook_of_def hook_refused_env_def calm_env_def
      empty_world_def kubeCreate_def emit_def)

text \<open>In general: whenever the pre-install phase returns an error, \<open>performRelease\<close>
  returns it with the release as the phase left it, status untouched, and stops there.\<close>

lemma performRelease_pre_install_failure:
  assumes "\<not> Install_DryRun req" and "\<not> Install_DisableHooks req"
    and "execHook e (Hooks r) (Name r) (Namespace r) preInstall w = (Some err, hs1, w1)"
  shows "performRelease e r req w = ((r\<lparr>Hooks := hs1\<rparr>, Some err), w1)"
  using assms by (simp add: performRelease_def)

text \<open>The sibling path: when the orchestrator refuses the manifest, the release is
  marked FAILED and created in the store, and the wrapped error is returned.\<close>

lemma performRelease_create_failure_recorded:
  "fst (performRelease manifest_refused_env web_release live_request empty_world) =
     (set_Code FAILED
        (web_release\<lparr>Hooks := [(hook_of ''check'' [PRE_INSTALL])
                                   \<lparr>LastRun := Some \<lparr>Seconds = 2, Nanos = 0\<rparr>\<rparr>]\<rparr>),
      Some (ReleaseFailed ''web'' (External ''forbidden'')))
   \<and> releases (snd (performRelease manifest_refused_env web_release live_request empty_world)) =
     [set_Code FAILED
        (web_release\<lparr>Hooks := [(hook_of ''check'' [PRE_INSTALL])
                                   \<lparr>LastRun := Some \<lparr>Seconds = 2, Nanos = 0\<rparr>\<rparr>]\<rparr>)]"
  by (simp add: performRelease_def live_request_def dry_request_def web_release_def
      execHook_def events_def preInstall_def hook_of_def manifest_refused_env_def calm_env_def
      empty_world_def kubeCreate_def kubeWatchUntilReady_def Now_def emit_def Let_def
      set_Code_def recordRelease_def storeCreate_def has_key_def)

subsection \<open>Upgrade\<close>

lemma find_overwrite_same:
  "find (has_key (Name r) (Version r)) xs = Some x \<Longrightarrow>
   find (has_key (Name r) (Version r)) (overwrite r xs) = Some r"
  by (induction xs) (auto simp: has_key_def)

lemma find_overwrite_other:
  "\<not> has_key n v r \<Longrightarrow> find (has_key n v) (overwrite r xs) = find (has_key n v) xs"
  by (induction xs) (auto simp: has_key_def)

lemma find_append_hit: "find P xs = Some x \<Longrightarrow> find P (xs @ ys) = Some x"
  by (induction xs) auto

lemma find_append_miss: "find P xs = None \<Longrightarrow> find P (xs @ ys) = find P ys"
  by (induction xs) (auto split: if_splits)

lemma find_Some_holds: "find P xs = Some x \<Longrightarrow> P x \<and> x \<in> set xs"
  by (induction xs) (auto split: if_splits)

lemma storeUpdate_None:
  "storeUpdate e r w = (None, w') \<Longrightarrow>
   releases w' = overwrite r (releases w) \<and> trace w' = trace w @ [StoreUpdate r] \<and>
   (\<exists>x. find (has_key (Name r) (Version r)) (releases w) = Some x)"
  by (auto simp: storeUpdate_def Let_def emit_def split: option.splits)

lemma storeCreate_None:
  "storeCreate e r w = (None, w') \<Longrightarrow>
   releases w' = releases w @ [r] \<and> trace w' = trace w @ [StoreCreate r] \<and>
   find (has_key (Name r) (Version r)) (releases w) = None"
  by (auto simp: storeCreate_def Let_def emit_def split: option.splits)

lemma storeDeployed_keeps: "storeDeployed e n w = (x, w') \<Longrightarrow> calls_within (\<lambda>c. \<not> store_write c) w w'"
  by (auto simp: storeDeployed_def Let_def calls_within_emit split: option.splits)

lemma execHook_loop_keeps:
  "execHook_loop e code ns hs w = (r, hs', w') \<Longrightarrow> calls_within (\<lambda>c. \<not> store_write c) w w'"
proof (induction hs arbitrary: w r hs' w')
  case Nil
  then show ?case by (simp add: calls_within_refl)
next
  case (Cons h hs)
  show ?case
  proof (cases "code \<in> set (Events h)")
    case False
    with Cons.prems obtain r0 hs0 where "execHook_loop e code ns hs w = (r0, hs0, w')"
      by (auto split: prod.splits)
    then show ?thesis by (rule Cons.IH)
  next
    case True
    let ?m = "HookManifest h"
    let ?w1 = "emit (KubeCreate ns ?m) w"
    let ?w2 = "emit (KubeWatchUntilReady ns ?m) ?w1"
    let ?w3 = "emit (TimeNow (clock e (trace ?w2))) ?w2"
    have s1: "calls_within (\<lambda>c. \<not> store_write c) w ?w1" by (simp add: calls_within_emit)
    have s2: "calls_within (\<lambda>c. \<not> store_write c) w ?w2"
      by (rule calls_within_trans [OF s1]) (simp add: calls_within_emit)
    have s3: "calls_within (\<lambda>c. \<not> store_write c) w ?w3"
      by (rule calls_within_trans [OF s2]) (simp add: calls_within_emit)
    from Cons.prems True consider "w' = ?w1" | "w' = ?w2"
      | r0 hs0 where "execHook_loop e code ns hs ?w3 = (r0, hs0, w')"
      by (auto simp: kubeCreate_def kubeWatchUntilReady_def Now_def Let_def
          split: option.splits prod.splits)
    then show ?thesis
    proof cases
      case 1 with s1 show ?thesis by simp
    next
      case 2 with s2 show ?thesis by simp
    next
      case 3
      from Cons.IH [OF 3] s3 show ?thesis by (blast intro: calls_within_trans)
    qed
  qed
qed

lemma execHook_keeps:
  "execHook e hs rname ns hook w = (r, hs', w') \<Longrightarrow> calls_within (\<lambda>c. \<not> store_write c) w w'"
  by (auto simp: execHook_def calls_within_refl split: option.splits dest: execHook_loop_keeps)

lemma lookup_only_keeps:
  "calls_within lookup_only w w' \<Longrightarrow> calls_within (\<lambda>c. \<not> store_write c) w w'"
proof (rule calls_within_mono)
  fix c show "lookup_only c \<Longrightarrow> \<not> store_write c" by (cases c) auto
qed

lemma kubeUpdate_keeps:
  "kubeUpdate e ns a b w = (r, w') \<Longrightarrow> calls_within (\<lambda>c. \<not> store_write c) w w'"
  by (auto simp: kubeUpdate_def calls_within_emit)

lemma prepareUpdate_keeps:
  "prepareUpdate e req w = (x, w') \<Longrightarrow> calls_within (\<lambda>c. \<not> store_write c) w w'"
  unfolding prepareUpdate_def
  by (auto simp: calls_within_refl split: if_splits option.splits prod.splits sum.splits
      dest!: storeDeployed_keeps Now_only_looks renderResources_only_looks lookup_only_keeps
      intro: calls_within_trans)

lemma prepareUpdate_Inr:
  assumes "prepareUpdate e req w = (Inr (cur, upd), w1)"
  shows "find (\<lambda>r. Name r = Update_Name req \<and> Code (Status (Info r)) = DEPLOYED) (releases w) = Some cur"
    and "Name upd = Update_Name req" and "Version upd = Version cur + 1"
    and "FirstDeployed (Info upd) = FirstDeployed (Info cur)"
    and "Code (Status (Info upd)) = UNKNOWN" and "Namespace upd = Namespace cur"
  using assms unfolding prepareUpdate_def storeDeployed_def
  by (auto simp: Let_def split: if_splits option.splits prod.splits sum.splits)

lemma performUpdate_success:
  assumes "\<not> Update_DryRun req"
    and "performUpdate e cur upd req w1 = ((res, None, upd'), w2)"
  shows "\<exists>hs cs. upd' = set_Code DEPLOYED (upd\<lparr>Hooks := hs\<rparr>) \<and> res = Some upd' \<and>
      releases w2 = overwrite (set_Code SUPERSEDED cur) (releases w1) \<and>
      (\<exists>x. find (has_key (Name cur) (Version cur)) (releases w1) = Some x) \<and>
      trace w2 = trace w1 @ cs @ [StoreUpdate (set_Code SUPERSEDED cur)] \<and>
      list_all (\<lambda>c. \<not> store_write c) cs"
proof -
  obtain r1 hs1 wa where pre:
    "(if \<not> Update_DisableHooks req
      then execHook e (Hooks upd) (Name upd) (Namespace upd) preUpgrade w1
      else (None, Hooks upd, w1)) = (r1, hs1, wa)"
    by (metis prod_cases3)
  have ka: "calls_within (\<lambda>c. \<not> store_write c) w1 wa"
    using pre by (auto simp: calls_within_refl split: if_splits dest: execHook_keeps)
  let ?u1 = "upd\<lparr>Hooks := hs1\<rparr>"
  obtain r2 wb where upd: "performKubeUpdate e cur ?u1 wa = (r2, wb)"
    by (metis surj_pair)
  have kb: "calls_within (\<lambda>c. \<not> store_write c) wa wb"
    using upd by (auto simp: performKubeUpdate_def dest: kubeUpdate_keeps)
  obtain r3 hs2 wc where post:
    "(if \<not> Update_DisableHooks req
      then execHook e (Hooks ?u1) (Name ?u1) (Namespace ?u1) postUpgrade wb
      else (None, Hooks ?u1, wb)) = (r3, hs2, wc)"
    by (metis prod_cases3)
  have kc: "calls_within (\<lambda>c. \<not> store_write c) wb wc"
    using post by (auto simp: calls_within_refl split: if_splits dest: execHook_keeps)
  have k: "calls_within (\<lambda>c. \<not> store_write c) w1 wc"
    using ka kb kc by (blast intro: calls_within_trans)
  from assms pre upd post
  have r: "r1 = None" "r2 = None" "r3 = None"
    and su: "storeUpdate e (set_Code SUPERSEDED cur) wc = (None, w2)"
    and u: "upd' = set_Code DEPLOYED (?u1\<lparr>Hooks := hs2\<rparr>)" "res = Some upd'"
    unfolding performUpdate_def
    by (auto simp: Let_def split: option.splits prod.splits)
  from storeUpdate_None [OF su] k u show ?thesis
    by (auto simp: calls_within_def set_Code_def)
qed

text \<open>
  C2. A non-dry-run upgrade that succeeds. The release \<open>cur\<close> is the one the store gave
  as deployed under the name. The store is then updated with \<open>cur\<close> marked SUPERSEDED
  and the new release is created, as the last two calls of the handler and the only
  writes to the store; the store holds what it held, with the superseded record in
  place of the old one, followed by the new record. The new release has the version of
  \<open>cur\<close> plus one (in \<open>int32\<close> arithmetic), the status DEPLOYED and the
  \<open>FirstDeployed\<close> of \<open>cur\<close>.
\<close>

theorem UpdateRelease_supersedes:
  assumes "\<not> Update_DryRun req"
    and "UpdateRelease e c req w = (Inr res, w')"
  shows "\<exists>cur new cs.
      find (\<lambda>r. Name r = Update_Name req \<and> Code (Status (Info r)) = DEPLOYED) (releases w) = Some cur \<and>
      res = Some new \<and>
      Name new = Update_Name req \<and>
      Version new = Version cur + 1 \<and>
      Code (Status (Info new)) = DEPLOYED \<and>
      FirstDeployed (Info new) = FirstDeployed (Info cur) \<and>
      trace w' = trace w @ cs @ [StoreUpdate (set_Code SUPERSEDED cur), StoreCreate new] \<and>
      list_all (\<lambda>c. \<not> store_write c) cs \<and>
      releases w' = overwrite (set_Code SUPERSEDED cur) (releases w) @ [new] \<and>
      find (has_key (Update_Name req) (Version cur)) (releases w') = Some (set_Code SUPERSEDED cur) \<and>
      find (has_key (Update_Name req) (Version cur + 1)) (releases w') = Some new"
proof -
  from assms obtain cur upd w1 r upd' w2 where
    prep: "prepareUpdate e req w = (Inr (cur, upd), w1)"
    and perf: "performUpdate e cur upd req w1 = ((r, None, upd'), w2)"
    and cr: "storeCreate e upd' w2 = (None, w')" and res: "res = r"
    unfolding UpdateRelease_def
    by (auto split: if_splits prod.splits sum.splits option.splits)
  note p = prepareUpdate_Inr [OF prep]
  from prepareUpdate_keeps [OF prep] obtain cs0 where
    k0: "releases w1 = releases w" "trace w1 = trace w @ cs0" "list_all (\<lambda>c. \<not> store_write c) cs0"
    by (auto simp: calls_within_def)
  from performUpdate_success [OF assms(1) perf] obtain hs cs1 x where
    u: "upd' = set_Code DEPLOYED (upd\<lparr>Hooks := hs\<rparr>)" "r = Some upd'"
    and rel2: "releases w2 = overwrite (set_Code SUPERSEDED cur) (releases w1)"
    and ex: "find (has_key (Name cur) (Version cur)) (releases w1) = Some x"
    and tr2: "trace w2 = trace w1 @ cs1 @ [StoreUpdate (set_Code SUPERSEDED cur)]"
    and q1: "list_all (\<lambda>c. \<not> store_write c) cs1"
    by blast
  note c = storeCreate_None [OF cr]
  have ncur: "Name cur = Update_Name req"
    using find_Some_holds [OF p(1)] by simp
  let ?sup = "set_Code SUPERSEDED cur"
  have ksup: "Name ?sup = Name cur" "Version ?sup = Version cur"
    by (simp_all add: set_Code_def)
  have knew: "Name upd' = Update_Name req" "Version upd' = Version cur + 1"
    using u p by (simp_all add: set_Code_def)
  have f1: "find (has_key (Name cur) (Version cur)) (releases w2) = Some ?sup"
    using find_overwrite_same [of ?sup "releases w1" x] ex rel2 ksup by simp
  have g1: "find (has_key (Update_Name req) (Version cur)) (releases w') = Some ?sup"
    using f1 c ncur by (simp add: find_append_hit)
  have g2: "find (has_key (Update_Name req) (Version cur + 1)) (releases w') = Some upd'"
    using c knew by (simp add: find_append_miss has_key_def)
  show ?thesis
    apply (rule exI [of _ cur], rule exI [of _ upd'], rule exI [of _ "cs0 @ cs1"])
    using p u res knew k0 rel2 tr2 q1 c g1 g2 by (simp add: set_Code_def)
qed

theorem UpdateRelease_supersedes_witness:
  "\<not> Update_DryRun upgrade_request \<and>
   UpdateRelease calm_env None upgrade_request deployed_world = (Inr (Some web_v2), upgraded_world) \<and>
   (\<exists>cur new cs.
      find (\<lambda>r. Name r = Update_Name upgrade_request \<and> Code (Status (Info r)) = DEPLOYED) (releases deployed_world) = Some cur \<and>
      Some web_v2 = Some new \<and>
      Name new = Update_Name upgrade_request \<and>
      Version new = Version cur + 1 \<and>
      Code (Status (Info new)) = DEPLOYED \<and>
      FirstDeployed (Info new) = FirstDeployed (Info cur) \<and>
      trace upgraded_world = trace deployed_world @ cs @ [StoreUpdate (set_Code SUPERSEDED cur), StoreCreate new] \<and>
      list_all (\<lambda>c. \<not> store_write c) cs \<and>
      releases upgraded_world = overwrite (set_Code SUPERSEDED cur) (releases deployed_world) @ [new] \<and>
      find (has_key (Update_Name upgrade_request) (Version cur)) (releases upgraded_world) = Some (set_Code SUPERSEDED cur) \<and>
      find (has_key (Update_Name upgrade_request) (Version cur + 1)) (releases upgraded_world) = Some new)"
proof -
  have a: "\<not> Update_DryRun upgrade_request" by (simp add: upgrade_request_def)
  have b: "UpdateRelease calm_env None upgrade_request deployed_world =
      (Inr (Some web_v2), upgraded_world)"
    by (simp add: UpdateRelease_def checkClientVersion_def prepareUpdate_def performUpdate_def
        performKubeUpdate_def kubeUpdate_def storeDeployed_def storeUpdate_def storeCreate_def
        renderResources_def engine_def getVersionSet_def HasSuffix_def notesFileSuffix_def
        execHook_def events_def preUpgrade_def postUpgrade_def Now_def emit_def Let_def
        has_key_def set_Code_def
        upgrade_request_def deployed_world_def upgraded_world_def web_v1_def web_v2_def
        web_v2_prepared_def web_release_def web_chart_def hook_of_def calm_env_def)
  from UpdateRelease_supersedes [OF a b] a b show ?thesis by blast
qed

text \<open>
  C10. A non-dry-run upgrade, prepared, whose apply fails. \<open>r1\<close>, \<open>r2\<close> and \<open>r3\<close> are
  the outcomes of the pre-upgrade hook phase, of the orchestrator update and of the
  post-upgrade hook phase, each from where the one before left off. If one of them is an
  error, the handler returns the first such error, the store holds exactly what it
  held (the deployed record is not touched, so neither SUPERSEDED nor FAILED), and no
  call of the handler is a \<open>Create\<close> or an \<open>Update\<close> on the store.
\<close>

theorem UpdateRelease_failed_apply_keeps_store:
  assumes "checkClientVersion e c" and "\<not> Update_DryRun req"
    and "prepareUpdate e req w = (Inr (cur, upd), w1)"
    and "(if Update_DisableHooks req then (None, Hooks upd, w1)
          else execHook e (Hooks upd) (Name upd) (Namespace upd) preUpgrade w1) = (r1, hs1, wa)"
    and "performKubeUpdate e cur (upd\<lparr>Hooks := hs1\<rparr>) wa = (r2, wb)"
    and "(if Update_DisableHooks req then (None, hs1, wb)
          else execHook e hs1 (Name upd) (Namespace upd) postUpgrade wb) = (r3, hs2, wc)"
    and "r1 \<noteq> None \<or> r2 \<noteq> None \<or> r3 \<noteq> None"
  shows "\<exists>err w' cs. UpdateRelease e c req w = (Inl err, w') \<and>
      Some err = (if r1 \<noteq> None then r1 else if r2 \<noteq> None then r2 else r3) \<and>
      releases w' = releases w \<and>
      trace w' = trace w @ cs \<and> list_all (\<lambda>c. \<not> store_write c) cs"
proof -
  have k0: "calls_within (\<lambda>c. \<not> store_write c) w w1"
    using assms(3) by (rule prepareUpdate_keeps)
  have ka: "calls_within (\<lambda>c. \<not> store_write c) w1 wa"
    using assms(4) by (auto simp: calls_within_refl split: if_splits dest: execHook_keeps)
  have kb: "calls_within (\<lambda>c. \<not> store_write c) wa wb"
    using assms(5) by (auto simp: performKubeUpdate_def dest: kubeUpdate_keeps)
  have kc: "calls_within (\<lambda>c. \<not> store_write c) wb wc"
    using assms(6) by (auto simp: calls_within_refl split: if_splits dest: execHook_keeps)
  have k1: "calls_within (\<lambda>c. \<not> store_write c) w wa"
    using k0 ka by (blast intro: calls_within_trans)
  have k2: "calls_within (\<lambda>c. \<not> store_write c) w wb"
    using k1 kb by (blast intro: calls_within_trans)
  have k3: "calls_within (\<lambda>c. \<not> store_write c) w wc"
    using k2 kc by (blast intro: calls_within_trans)
  show ?thesis
  proof (cases r1)
    case (Some err)
    with assms have "UpdateRelease e c req w = (Inl err, wa)"
      by (auto simp: UpdateRelease_def performUpdate_def split: if_splits)
    with Some k1 show ?thesis by (auto simp: calls_within_def)
  next
    case None
    note n1 = None
    show ?thesis
    proof (cases r2)
      case (Some err)
      with n1 assms have "UpdateRelease e c req w = (Inl err, wb)"
        by (auto simp: UpdateRelease_def performUpdate_def Let_def split: if_splits)
      with Some n1 k2 show ?thesis by (auto simp: calls_within_def)
    next
      case None
      note n2 = None
      with n1 assms(7) obtain err where s3: "r3 = Some err" by auto
      with n1 n2 assms have "UpdateRelease e c req w = (Inl err, wc)"
        by (auto simp: UpdateRelease_def performUpdate_def Let_def split: if_splits)
      with s3 n1 n2 k3 show ?thesis by (auto simp: calls_within_def)
    qed
  qed
qed

theorem UpdateRelease_failed_apply_keeps_store_witness:
  "\<exists>err w' cs. UpdateRelease update_refused_env None upgrade_request deployed_world = (Inl err, w') \<and>
      Some err = (Some (External ''conflict'')) \<and>
      releases w' = releases deployed_world \<and>
      trace w' = trace deployed_world @ cs \<and> list_all (\<lambda>c. \<not> store_write c) cs"
proof -
  have h1: "checkClientVersion update_refused_env None"
    by (simp add: checkClientVersion_def update_refused_env_def calm_env_def)
  have h2: "\<not> Update_DryRun upgrade_request" by (simp add: upgrade_request_def)
  have h3: "prepareUpdate update_refused_env upgrade_request deployed_world =
      (Inr (web_v1, web_v2_prepared), upgrade_prepared_world)"
    by (simp add: prepareUpdate_def storeDeployed_def renderResources_def engine_def
        getVersionSet_def HasSuffix_def notesFileSuffix_def Now_def emit_def Let_def
        set_Code_def upgrade_request_def deployed_world_def upgrade_prepared_world_def
        web_v1_def web_v2_prepared_def web_release_def web_chart_def hook_of_def
        update_refused_env_def calm_env_def)
  have h4: "(if Update_DisableHooks upgrade_request
             then (None, Hooks web_v2_prepared, upgrade_prepared_world)
             else execHook update_refused_env (Hooks web_v2_prepared) (Name web_v2_prepared)
                    (Namespace web_v2_prepared) preUpgrade upgrade_prepared_world) =
            (None, [], upgrade_prepared_world)"
    by (simp add: upgrade_request_def web_v2_prepared_def execHook_def events_def
        preUpgrade_def)
  have h5: "performKubeUpdate update_refused_env web_v1 (web_v2_prepared\<lparr>Hooks := []\<rparr>)
              upgrade_prepared_world = (Some (External ''conflict''), update_refused_world)"
    by (simp add: performKubeUpdate_def kubeUpdate_def emit_def update_refused_env_def
        calm_env_def upgrade_prepared_world_def update_refused_world_def web_v2_def
        web_v2_prepared_def web_v1_def web_release_def set_Code_def)
  have h6: "(if Update_DisableHooks upgrade_request then (None, [], update_refused_world)
             else execHook update_refused_env [] (Name web_v2_prepared)
                    (Namespace web_v2_prepared) postUpgrade update_refused_world) =
            (None, [], update_refused_world)"
    by (simp add: upgrade_request_def execHook_def events_def postUpgrade_def)
  have h7: "(None :: error option) \<noteq> None \<or> Some (External ''conflict'') \<noteq> None
            \<or> (None :: error option) \<noteq> None"
    by simp
  from UpdateRelease_failed_apply_keeps_store [OF h1 h2 h3 h4 h5 h6 h7]
  show ?thesis by simp
qed

subsection \<open>Rollback\<close>

text \<open>The hook phases change nothing of a hook but its \<open>LastRun\<close>.\<close>

lemma execHook_loop_same_hooks:
  "execHook_loop e code ns hs w = (r, hs', w') \<Longrightarrow>
   map (\<lambda>h. h\<lparr>LastRun := None\<rparr>) hs' = map (\<lambda>h. h\<lparr>LastRun := None\<rparr>) hs"
proof (induction hs arbitrary: w r hs' w')
  case Nil
  then show ?case by simp
next
  case (Cons h hs)
  then show ?case
    by (auto simp: kubeCreate_def kubeWatchUntilReady_def Now_def Let_def
        split: if_splits option.splits prod.splits)
qed

lemma execHook_same_hooks:
  "execHook e hs rname ns hook w = (r, hs', w') \<Longrightarrow>
   map (\<lambda>h. h\<lparr>LastRun := None\<rparr>) hs' = map (\<lambda>h. h\<lparr>LastRun := None\<rparr>) hs"
  by (auto simp: execHook_def split: option.splits dest: execHook_loop_same_hooks)

lemma performRollback_result:
  assumes "performRollback e cur tgt req w = ((Some new, None, t'), w')"
  shows "Chart new = Chart tgt \<and> Config new = Config tgt \<and> Manifest new = Manifest tgt \<and>
    Version new = Version tgt \<and>
    map (\<lambda>h. h\<lparr>LastRun := None\<rparr>) (Hooks new) = map (\<lambda>h. h\<lparr>LastRun := None\<rparr>) (Hooks tgt)"
proof (cases "Rollback_DryRun req")
  case True
  with assms show ?thesis by (simp add: performRollback_def)
next
  case False
  obtain r1 hs1 wa where pre:
    "(if \<not> Rollback_DisableHooks req
      then execHook e (Hooks tgt) (Name tgt) (Namespace tgt) preRollback w
      else (None, Hooks tgt, w)) = (r1, hs1, wa)"
    by (metis prod_cases3)
  have e1: "map (\<lambda>h. h\<lparr>LastRun := None\<rparr>) hs1 = map (\<lambda>h. h\<lparr>LastRun := None\<rparr>) (Hooks tgt)"
    using pre by (auto split: if_splits dest: execHook_same_hooks)
  let ?t1 = "tgt\<lparr>Hooks := hs1\<rparr>"
  obtain r2 wb where upd: "performKubeUpdate e cur ?t1 wa = (r2, wb)"
    by (metis surj_pair)
  obtain r3 hs2 wc where post:
    "(if \<not> Rollback_DisableHooks req
      then execHook e (Hooks ?t1) (Name ?t1) (Namespace ?t1) postRollback wb
      else (None, Hooks ?t1, wb)) = (r3, hs2, wc)"
    by (metis prod_cases3)
  have e2: "map (\<lambda>h. h\<lparr>LastRun := None\<rparr>) hs2 = map (\<lambda>h. h\<lparr>LastRun := None\<rparr>) hs1"
    using post by (auto split: if_splits dest: execHook_same_hooks)
  from assms False pre upd post have "new = set_Code DEPLOYED (?t1\<lparr>Hooks := hs2\<rparr>)"
    unfolding performRollback_def
    by (auto simp: Let_def split: option.splits prod.splits)
  with e1 e2 show ?thesis by (simp add: set_Code_def)
qed

text \<open>
  C3. A rollback request on a name (not empty, as the names of releases are) whose
  deployed release is \<open>cur\<close>, of version \<open>v\<close>, from a client the version check accepts,
  when the lookup of (name, \<open>v - 1\<close>) is answered from the store's content. If the store
  has no release (name, \<open>v - 1\<close>), \<open>prepareRollback\<close> and the operation fail with
  \<open>ErrReleaseNotFound\<close>. Otherwise the new release that \<open>prepareRollback\<close> builds has
  the chart, config, manifest and hooks of the release (name, \<open>v - 1\<close>) and the version
  \<open>v + 1\<close> (in \<open>int32\<close> arithmetic); and the release a successful rollback returns and
  creates still has that chart, config, manifest and version, and those hooks, with
  \<open>LastRun\<close> newly set on the hooks its own phases have run.
\<close>

theorem RollbackRelease_from_previous:
  assumes "Rollback_Name req \<noteq> []" and "checkClientVersion e c"
    and "storeDeployed e (Rollback_Name req) w = (Inr cur, w1)"
    and "store_fault e (trace w1) (StoreGet (Rollback_Name req) (Version cur - 1)) = None"
  shows "(find (has_key (Rollback_Name req) (Version cur - 1)) (releases w) = None \<longrightarrow>
            fst (prepareRollback e req w) = Inl ErrReleaseNotFound \<and>
            fst (RollbackRelease e c req w) = Inl ErrReleaseNotFound)
    \<and> (\<forall>prev. find (has_key (Rollback_Name req) (Version cur - 1)) (releases w) = Some prev \<longrightarrow>
          (\<exists>tgt w3. prepareRollback e req w = (Inr (cur, tgt), w3) \<and>
             Name tgt = Rollback_Name req \<and>
             Chart tgt = Chart prev \<and> Config tgt = Config prev \<and>
             Manifest tgt = Manifest prev \<and> Hooks tgt = Hooks prev \<and>
             Version tgt = Version cur + 1 \<and>
             (\<forall>new w'. RollbackRelease e c req w = (Inr (Some new), w') \<longrightarrow>
                Chart new = Chart prev \<and> Config new = Config prev \<and>
                Manifest new = Manifest prev \<and> Version new = Version cur + 1 \<and>
                map (\<lambda>h. h\<lparr>LastRun := None\<rparr>) (Hooks new) =
                  map (\<lambda>h. h\<lparr>LastRun := None\<rparr>) (Hooks prev))))"
proof (intro conjI impI allI)
  assume nf: "find (has_key (Rollback_Name req) (Version cur - 1)) (releases w) = None"
  have r1: "releases w1 = releases w"
    using assms(3) by (auto simp: storeDeployed_def Let_def emit_def split: option.splits)
  show p: "fst (prepareRollback e req w) = Inl ErrReleaseNotFound"
    using assms nf r1 by (simp add: prepareRollback_def storeGet_def Let_def)
  then show "fst (RollbackRelease e c req w) = Inl ErrReleaseNotFound"
    using assms(2) by (auto simp: RollbackRelease_def split: prod.splits sum.splits)
next
  fix prev
  assume f: "find (has_key (Rollback_Name req) (Version cur - 1)) (releases w) = Some prev"
  have r1: "releases w1 = releases w"
    using assms(3) by (auto simp: storeDeployed_def Let_def emit_def split: option.splits)
  obtain tgt w3 where p: "prepareRollback e req w = (Inr (cur, tgt), w3)"
    and t: "Name tgt = Rollback_Name req" "Chart tgt = Chart prev" "Config tgt = Config prev"
      "Manifest tgt = Manifest prev" "Hooks tgt = Hooks prev" "Version tgt = Version cur + 1"
    using assms f r1 by (simp add: prepareRollback_def storeGet_def Now_def Let_def)
  have "\<forall>new w'. RollbackRelease e c req w = (Inr (Some new), w') \<longrightarrow>
                Chart new = Chart prev \<and> Config new = Config prev \<and>
                Manifest new = Manifest prev \<and> Version new = Version cur + 1 \<and>
                map (\<lambda>h. h\<lparr>LastRun := None\<rparr>) (Hooks new) =
                  map (\<lambda>h. h\<lparr>LastRun := None\<rparr>) (Hooks prev)"
  proof (intro allI impI)
    fix new w'
    assume rr: "RollbackRelease e c req w = (Inr (Some new), w')"
    with p assms(2) obtain t' w2 where
      "performRollback e cur tgt req w3 = ((Some new, None, t'), w2)"
      by (auto simp: RollbackRelease_def split: prod.splits option.splits if_splits)
    from performRollback_result [OF this] t
    show "Chart new = Chart prev \<and> Config new = Config prev \<and>
                Manifest new = Manifest prev \<and> Version new = Version cur + 1 \<and>
                map (\<lambda>h. h\<lparr>LastRun := None\<rparr>) (Hooks new) =
                  map (\<lambda>h. h\<lparr>LastRun := None\<rparr>) (Hooks prev)" by simp
  qed
  with p t show "\<exists>tgt w3. prepareRollback e req w = (Inr (cur, tgt), w3) \<and>
             Name tgt = Rollback_Name req \<and>
             Chart tgt = Chart prev \<and> Config tgt = Config prev \<and>
             Manifest tgt = Manifest prev \<and> Hooks tgt = Hooks prev \<and>
             Version tgt = Version cur + 1 \<and>
             (\<forall>new w'. RollbackRelease e c req w = (Inr (Some new), w') \<longrightarrow>
                Chart new = Chart prev \<and> Config new = Config prev \<and>
                Manifest new = Manifest prev \<and> Version new = Version cur + 1 \<and>
                map (\<lambda>h. h\<lparr>LastRun := None\<rparr>) (Hooks new) =
                  map (\<lambda>h. h\<lparr>LastRun := None\<rparr>) (Hooks prev))"
    by blast
qed

theorem RollbackRelease_from_previous_witness:
  "fst (RollbackRelease calm_env None rollback_request deployed_world) = Inl ErrReleaseNotFound \<and>
   (\<exists>tgt w3. prepareRollback calm_env rollback_request history_world = (Inr (web_v2, tgt), w3) \<and>
      Chart tgt = Chart web_v1 \<and> Config tgt = Config web_v1 \<and>
      Manifest tgt = Manifest web_v1 \<and> Hooks tgt = Hooks web_v1 \<and> Version tgt = 3)"
proof -
  have n: "Rollback_Name rollback_request \<noteq> []" by (simp add: rollback_request_def)
  have v: "checkClientVersion calm_env None"
    by (simp add: checkClientVersion_def calm_env_def)
  have d1: "storeDeployed calm_env (Rollback_Name rollback_request) deployed_world =
      (Inr web_v1, emit (StoreDeployed ''web'') deployed_world)"
    by (simp add: storeDeployed_def rollback_request_def deployed_world_def web_v1_def
        web_release_def set_Code_def calm_env_def Let_def)
  have d2: "storeDeployed calm_env (Rollback_Name rollback_request) history_world =
      (Inr web_v2, emit (StoreDeployed ''web'') history_world)"
    by (simp add: storeDeployed_def rollback_request_def history_world_def web_v1_def
        web_v2_def web_v2_prepared_def web_release_def set_Code_def calm_env_def Let_def)
  have f: "\<And>t c. store_fault calm_env t c = None" by (simp add: calm_env_def)
  have a1: "find (has_key (Rollback_Name rollback_request) (Version web_v1 - 1))
      (releases deployed_world) = None"
    by (simp add: rollback_request_def deployed_world_def web_v1_def web_release_def
        set_Code_def has_key_def)
  have a2: "find (has_key (Rollback_Name rollback_request) (Version web_v2 - 1))
      (releases history_world) = Some (set_Code SUPERSEDED web_v1)"
    by (simp add: rollback_request_def history_world_def web_v1_def web_v2_def
        web_v2_prepared_def web_release_def set_Code_def has_key_def)
  have v3: "Version web_v2 + 1 = 3" by (simp add: web_v2_def web_v2_prepared_def set_Code_def)
  have s: "Chart (set_Code SUPERSEDED web_v1) = Chart web_v1"
    "Config (set_Code SUPERSEDED web_v1) = Config web_v1"
    "Manifest (set_Code SUPERSEDED web_v1) = Manifest web_v1"
    "Hooks (set_Code SUPERSEDED web_v1) = Hooks web_v1"
    by (simp_all add: set_Code_def)
  from RollbackRelease_from_previous [OF n v d1 f] a1
    RollbackRelease_from_previous [OF n v d2 f] a2 v3 s
  show ?thesis by fastforce
qed

subsection \<open>Status\<close>

text \<open>
  C6, as stated, fails: the live check is not skipped for a release marked DELETED. The
  handler looks the release up and calls the orchestrator's \<open>Get\<close> all the same.
\<close>

theorem GetReleaseStatus_deleted_calls_Get:
  "Code (Status (Info web_deleted)) = DELETED \<and>
   snd (GetReleaseStatus calm_env None status_request deleted_world) =
     \<lparr>releases = [web_deleted],
      trace = [StoreGet ''web'' 1, KubeGet ''default'' ''kind: ConfigMap'']\<rparr>"
  by (simp add: GetReleaseStatus_def checkClientVersion_def status_request_def
      deleted_world_def web_deleted_def web_release_def set_Code_def storeGet_def
      has_key_def kubeGet_def emit_def Let_def calm_env_def)

text \<open>
  C6, amended. For a \<open>GetReleaseStatus\<close> request (accepted client version, a name)
  whose lookup gives a release with a chart and the stored status DELETED or FAILED, the
  orchestrator's \<open>Get\<close> is still called, once, after the lookup; whatever it answers,
  resources or an error, is dropped: the handler returns the stored info and the
  namespace, and no error.
\<close>

theorem GetReleaseStatus_deleted_or_failed:
  assumes "checkClientVersion e c" and "Status_Name req \<noteq> []"
    and "(if sint (Status_Version req) \<le> 0 then storeDeployed e (Status_Name req) w
          else storeGet e (Status_Name req) (Status_Version req) w) = (Inr rel, w1)"
    and "Chart rel \<noteq> None"
    and "Code (Status (Info rel)) = DELETED \<or> Code (Status (Info rel)) = FAILED"
  shows "GetReleaseStatus e c req w =
     (Inr \<lparr>Response_Info = Info rel, Response_Namespace = Namespace rel\<rparr>,
      emit (KubeGet (Namespace rel) (Manifest rel)) w1)"
  using assms
  by (auto simp: GetReleaseStatus_def kubeGet_def Let_def split: if_splits)

theorem GetReleaseStatus_deleted_or_failed_witness:
  "GetReleaseStatus get_fails_env None status_request deleted_world =
     (Inr \<lparr>Response_Info = Info web_deleted, Response_Namespace = ''default''\<rparr>,
      \<lparr>releases = [web_deleted],
       trace = [StoreGet ''web'' 1, KubeGet ''default'' ''kind: ConfigMap'']\<rparr>)
   \<and> kube_get get_fails_env [StoreGet ''web'' 1] ''default'' ''kind: ConfigMap''
       = Inl (External ''not found'')"
proof -
  have h1: "checkClientVersion get_fails_env None"
    by (simp add: checkClientVersion_def get_fails_env_def calm_env_def)
  have h2: "Status_Name status_request \<noteq> []" by (simp add: status_request_def)
  have h3: "(if sint (Status_Version status_request) \<le> 0
             then storeDeployed get_fails_env (Status_Name status_request) deleted_world
             else storeGet get_fails_env (Status_Name status_request)
                    (Status_Version status_request) deleted_world) =
            (Inr web_deleted, \<lparr>releases = [web_deleted], trace = [StoreGet ''web'' 1]\<rparr>)"
    by (simp add: status_request_def deleted_world_def web_deleted_def web_release_def
        set_Code_def storeGet_def has_key_def emit_def Let_def get_fails_env_def calm_env_def)
  have h4: "Chart web_deleted \<noteq> None"
    by (simp add: web_deleted_def web_release_def set_Code_def)
  have h5: "Code (Status (Info web_deleted)) = DELETED \<or> Code (Status (Info web_deleted)) = FAILED"
    by (simp add: web_deleted_def set_Code_def)
  from GetReleaseStatus_deleted_or_failed [OF h1 h2 h3 h4 h5]
  show ?thesis
    by (simp add: emit_def web_deleted_def web_release_def set_Code_def get_fails_env_def
        calm_env_def)
qed

subsection \<open>Listing\<close>

text \<open>
  C7, as stated, fails for a negative limit: the list of one release is longer than the
  limit \<open>-1\<close>, and the handler indexes the list at \<open>-1\<close> instead of returning releases.
\<close>

theorem ListReleases_negative_limit_panics:
  "ListReleases_upto_offset calm_env None list_request deployed_world =
     (Inr (1, [web_v1]), \<lparr>releases = [web_v1], trace = [StoreListFilterAll]\<rparr>)
   \<and> List_Limit list_request = - 1
   \<and> fst (ListReleases calm_env None list_request deployed_world) = Inl PanicIndexOutOfRange"
  by (simp add: ListReleases_def ListReleases_upto_offset_def ListReleases_page_def
      ListDefaultLimit_def checkClientVersion_def storeListFilterAll_def emit_def Let_def
      list_request_def deployed_world_def web_v1_def web_release_def set_Code_def calm_env_def)

text \<open>
  C7, amended. For a \<open>ListReleases\<close> request with a limit that is not negative, whose
  filtered, sorted, offset-adjusted list is \<open>rels\<close>: a limit of 0 stands for 512; when
  \<open>rels\<close> is longer than the limit, exactly the first limit releases are returned and
  \<open>Next\<close> is the name of the first release past the page; otherwise all of \<open>rels\<close> is
  returned and \<open>Next\<close> is the empty string.
\<close>

theorem ListReleases_page_limit:
  assumes "ListReleases_upto_offset e c req w = (Inr (tot, rels), w1)"
    and "0 \<le> List_Limit req"
    and "limit = (if List_Limit req = 0 then 512 else List_Limit req)"
  shows "\<exists>res. ListReleases e c req w = (Inr res, w1) \<and>
      (if int (length rels) > limit
       then Releases res = take (nat limit) rels \<and> int (length (Releases res)) = limit \<and>
            Next res = Name (rels ! nat limit)
       else Releases res = rels \<and> Next res = [])"
  using assms
  by (auto simp: ListReleases_def ListReleases_page_def ListDefaultLimit_def Let_def)

theorem ListReleases_page_limit_witness:
  "\<exists>res. ListReleases calm_env None list_all_request history_world =
      (Inr res, \<lparr>releases = [set_Code SUPERSEDED web_v1, web_v2], trace = [StoreListFilterAll]\<rparr>) \<and>
     Releases res = [set_Code SUPERSEDED web_v1] \<and> Next res = ''web''"
proof -
  have h1: "ListReleases_upto_offset calm_env None list_all_request history_world =
     (Inr (2, [set_Code SUPERSEDED web_v1, web_v2]),
      \<lparr>releases = [set_Code SUPERSEDED web_v1, web_v2], trace = [StoreListFilterAll]\<rparr>)"
    by (simp add: ListReleases_upto_offset_def checkClientVersion_def storeListFilterAll_def
        emit_def Let_def list_all_request_def list_request_def history_world_def web_v1_def
        web_v2_def web_v2_prepared_def web_release_def set_Code_def calm_env_def)
  have h2: "0 \<le> List_Limit list_all_request"
    by (simp add: list_all_request_def list_request_def)
  have h3: "(1::int) = (if List_Limit list_all_request = 0 then 512 else List_Limit list_all_request)"
    by (simp add: list_all_request_def list_request_def)
  from ListReleases_page_limit [OF h1 h2 h3]
  show ?thesis by (auto simp: web_v2_def web_v2_prepared_def set_Code_def)
qed

end
